theory Spec2Isabelle
  imports Main "HOL-Library.Word"
begin

section \<open>Machine types and Windows SDK vocabulary\<close>

text \<open>
  The program is a 64-bit Direct3D 12 application.  \<open>UINT\<close> and \<open>unsigned int\<close> are 32-bit
  words, \<open>UINT64\<close>, \<open>SIZE_T\<close>, GPU virtual addresses and descriptor handles are 64-bit words;
  all arithmetic wraps as in the C++ source.
\<close>

type_synonym BYTE = "8 word"
type_synonym UINT = "32 word"
type_synonym UINT64 = "64 word"
type_synonym SIZE_T = "64 word"
type_synonym HRESULT = "32 word"

text \<open>Windows SDK (winerror.h): \<open>S_OK\<close> is zero and \<open>FAILED(hr)\<close> tests the sign of the
  signed 32-bit status.\<close>

definition S_OK :: HRESULT where
  "S_OK = 0"

definition E_FAIL :: HRESULT where
  "E_FAIL = 0x80004005"

definition FAILED :: "HRESULT \<Rightarrow> bool" where
  "FAILED hr \<longleftrightarrow> sint hr < 0"

text \<open>RayTracing.cpp, line 21:
  \<^verbatim>\<open>#define ALIGN(value, alignment) (((value + alignment - 1) / alignment) * alignment)\<close>
  Every use in the program has a \<open>UINT64\<close> value, so the expression is evaluated in 64-bit
  unsigned arithmetic.  The alignment is always a non-zero SDK constant; a zero alignment
  would divide by zero in C++ and is outside every statement below.\<close>

definition ALIGN :: "UINT64 \<Rightarrow> UINT64 \<Rightarrow> UINT64" where
  "ALIGN v alignment = ((v + alignment - 1) div alignment) * alignment"

text \<open>The specification's \<open>align(v, a)\<close>: \<open>v\<close> rounded up to the next multiple of \<open>a\<close>,
  on unbounded naturals.  It is written from the words of the specification, not from the
  macro.\<close>

definition align_up :: "nat \<Rightarrow> nat \<Rightarrow> nat" where
  "align_up v a = (if v mod a = 0 then v else v + (a - v mod a))"

text \<open>
  Constants of the Direct3D 12 SDK headers and sizes of SDK or shader-interface structures that
  the program uses but does not declare.  They are compile-time constants of type \<open>int\<close> or
  small \<open>sizeof\<close> values, hence taken as 32-bit parameters; the program widens them to 64 bits
  where it computes with \<open>UINT64\<close>.
\<close>

record d3d12_constants =
  D3D12_SHADER_IDENTIFIER_SIZE_IN_BYTES :: UINT
  sizeof_D3D12_GPU_DESCRIPTOR_HANDLE :: UINT
  D3D12_RAYTRACING_SHADER_RECORD_BYTE_ALIGNMENT :: UINT
  D3D12_RAYTRACING_SHADER_TABLE_BYTE_ALIGNMENT :: UINT
  D3D12_RAYTRACING_ACCELERATION_STRUCTURE_BYTE_ALIGNMENT :: UINT
  D3D12_DEFAULT_RESOURCE_PLACEMENT_ALIGNMENT :: UINT
  sizeof_D3D12_RAYTRACING_INSTANCE_DESC :: UINT
  sizeof_RaytracingSceneData :: UINT
  D3D12_RAYTRACING_INSTANCE_FLAG_NONE :: UINT

text \<open>Graphics.h, lines 21 and 30.\<close>

definition MaxConstantBuffers :: UINT where
  "MaxConstantBuffers = 1000"

definition MaxTextureDescriptors :: UINT where
  "MaxTextureDescriptors = 1000"

section \<open>The device and the program state\<close>

datatype D3D12_RAYTRACING_TIER =
    D3D12_RAYTRACING_TIER_NOT_SUPPORTED
  | D3D12_RAYTRACING_TIER_1_0
  | D3D12_RAYTRACING_TIER_1_1

datatype D3D12_RAYTRACING_ACCELERATION_STRUCTURE_TYPE =
    TOP_LEVEL
  | BOTTOM_LEVEL

text \<open>
  What the driver answers.  The program reads these values and never checks them further, so
  they are parameters of the model: the status codes of the start-up queries, the descriptor
  increment and heap-start handles of the shader-visible heap, the GPU virtual address of each
  resource (by creation index), the prebuild sizes (scratch, result) per structure type, and
  the shader identifiers of the pipeline's exports.
\<close>

record device =
  createResult :: HRESULT
  swapResult :: HRESULT
  supportResult :: HRESULT
  RaytracingTier :: D3D12_RAYTRACING_TIER
  dxrDeviceResult :: HRESULT
  dxrCommandListResult :: HRESULT
  DescriptorHandleIncrementSize :: UINT
  CPUDescriptorHandleForHeapStart :: SIZE_T
  GPUDescriptorHandleForHeapStart :: UINT64
  GPUVirtualAddress :: "nat \<Rightarrow> UINT64"
  PrebuildInfo :: "D3D12_RAYTRACING_ACCELERATION_STRUCTURE_TYPE \<Rightarrow> UINT64 \<times> UINT64"
  ShaderIdentifier :: "string \<Rightarrow> nat \<Rightarrow> BYTE"

text \<open>A committed resource: its creation index and the width and height of its description.
  A \<open>ComPtr<ID3D12Resource>\<close> is a \<open>resource option\<close>, \<open>None\<close> for the null pointer.\<close>

record resource =
  rid :: nat
  Width :: UINT64
  Height :: UINT

record descriptor_heap =
  NumDescriptors :: UINT

record D3D12_RAYTRACING_INSTANCE_DESC =
  Transform :: "int list list"
  InstanceID :: UINT
  InstanceMask :: UINT
  InstanceContributionToHitGroupIndex :: UINT
  Flags :: UINT
  AccelerationStructure :: UINT64

record D3D12_DISPATCH_RAYS_DESC =
  RayGenerationShaderRecord_StartAddress :: UINT64
  RayGenerationShaderRecord_SizeInBytes :: UINT64
  MissShaderTable_StartAddress :: UINT64
  MissShaderTable_SizeInBytes :: UINT64
  MissShaderTable_StrideInBytes :: UINT64
  HitGroupTable_StartAddress :: UINT64
  HitGroupTable_SizeInBytes :: UINT64
  HitGroupTable_StrideInBytes :: UINT64
  Dispatch_Width :: UINT
  Dispatch_Height :: UINT
  Dispatch_Depth :: UINT

text \<open>The calls the program makes on the device, the command list, the command queue and the
  command allocator, with the arguments the statements below refer to.\<close>

datatype api_call =
    CheckFeatureSupport
  | QueryInterface
  | GetDescriptorHandleIncrementSize
  | CreateDescriptorHeap UINT
  | CreateRootSignature
  | CreateStateObject
  | CreateCommittedResource UINT64 UINT UINT64
  | CreateUnorderedAccessView nat SIZE_T
  | CreateShaderResourceView nat SIZE_T
  | CreateConstantBufferView UINT64 UINT SIZE_T
  | GetRaytracingAccelerationStructurePrebuildInfo D3D12_RAYTRACING_ACCELERATION_STRUCTURE_TYPE
  | BuildRaytracingAccelerationStructure D3D12_RAYTRACING_ACCELERATION_STRUCTURE_TYPE UINT UINT64 UINT64
  | ResourceBarrier nat
  | SetDescriptorHeaps
  | SetPipelineState1
  | SetComputeRootSignature
  | SetComputeRootDescriptorTable nat UINT64
  | SetComputeRootShaderResourceView nat UINT64
  | DispatchRays D3D12_DISPATCH_RAYS_DESC
  | CopyResource "nat option" "nat option"
  | Close
  | ExecuteCommandLists
  | Signal
  | ResetAllocator UINT
  | ResetCommandList UINT

fun is_DispatchRays :: "api_call \<Rightarrow> bool" where
  "is_DispatchRays (DispatchRays d) = True"
| "is_DispatchRays _ = False"

text \<open>
  The namespace-scope variables of Graphics.cpp/Graphics.h and RayTracing.cpp/RayTracing.h that
  the modelled functions read or write, under their own names, and three components for the
  world around them: \<open>next_rid\<close> counts the resources created so far, \<open>memory\<close> holds the
  CPU-visible bytes of each mapped resource (by creation index and byte offset; a mapped
  pointer is an offset into its resource, and pointer arithmetic is 64-bit), and \<open>calls\<close> is the
  sequence of API calls issued so far.
\<close>

record state =
  apiInitialized :: bool
  cbvSrvDescriptorHeapIncrementSize :: SIZE_T
  cbvDescriptorOffset :: UINT
  srvDescriptorOffset :: UINT
  cbUploadHeapSizeInBytes :: UINT64
  cbUploadHeapOffsetInBytes :: UINT64
  CBVSRVDescriptorHeap :: "descriptor_heap option"
  CBUploadHeap :: "resource option"
  dxrAvailable :: bool
  dxrInitialized :: bool
  ShaderTable :: "resource option"
  ShaderTableRecordSize :: UINT64
  TLASScratchBuffer :: "resource option"
  BLASScratchBuffer :: "resource option"
  TLASInstanceDescBuffer :: "resource option"
  TLAS :: "resource option"
  BLAS :: "resource option"
  RaytracingOutput :: "resource option"
  RaytracingOutputUAV_CPU :: SIZE_T
  RaytracingOutputUAV_GPU :: UINT64
  indexBufferSRV :: UINT64
  vertexBufferSRV :: UINT64
  next_rid :: nat
  memory :: "nat \<Rightarrow> UINT64 \<Rightarrow> BYTE"
  calls :: "api_call list"

text \<open>Static initialisation: every flag is false, every number zero, every pointer null.\<close>

definition initial_state :: "(nat \<Rightarrow> UINT64 \<Rightarrow> BYTE) \<Rightarrow> state" where
  "initial_state mem =
     \<lparr>apiInitialized = False,
      cbvSrvDescriptorHeapIncrementSize = 0,
      cbvDescriptorOffset = 0,
      srvDescriptorOffset = 0,
      cbUploadHeapSizeInBytes = 0,
      cbUploadHeapOffsetInBytes = 0,
      CBVSRVDescriptorHeap = None,
      CBUploadHeap = None,
      dxrAvailable = False,
      dxrInitialized = False,
      ShaderTable = None,
      ShaderTableRecordSize = 0,
      TLASScratchBuffer = None,
      BLASScratchBuffer = None,
      TLASInstanceDescBuffer = None,
      TLAS = None,
      BLAS = None,
      RaytracingOutput = None,
      RaytracingOutputUAV_CPU = 0,
      RaytracingOutputUAV_GPU = 0,
      indexBufferSRV = 0,
      vertexBufferSRV = 0,
      next_rid = 0,
      memory = mem,
      calls = []\<rparr>"

text \<open>Calling through a null \<open>ComPtr\<close> stops the program.  The fault carries the state
  reached, so that what was issued before it stays visible.\<close>

datatype fault = NullDereference

type_synonym 'a result = "(fault \<times> state) + 'a"

definition issue :: "api_call list \<Rightarrow> state \<Rightarrow> state" where
  "issue cs s = s\<lparr>calls := calls s @ cs\<rparr>"

text \<open>\<open>memcpy(dst, src, n)\<close> into one mapped resource: \<open>mem\<close> maps byte offsets to bytes,
  \<open>src\<close> gives the source bytes by index.\<close>

fun memcpy :: "(UINT64 \<Rightarrow> BYTE) \<Rightarrow> UINT64 \<Rightarrow> (nat \<Rightarrow> BYTE) \<Rightarrow> nat \<Rightarrow> (UINT64 \<Rightarrow> BYTE)" where
  "memcpy mem dst src 0 = mem"
| "memcpy mem dst src (Suc n) = (memcpy mem dst src n)(dst + of_nat n := src n)"

definition write_resource :: "nat \<Rightarrow> UINT64 \<Rightarrow> (nat \<Rightarrow> BYTE) \<Rightarrow> nat \<Rightarrow> state \<Rightarrow> state" where
  "write_resource r dst src n s = s\<lparr>memory := (memory s)(r := memcpy (memory s r) dst src n)\<rparr>"

text \<open>The object representation of a 64-bit handle or address: little-endian bytes.\<close>

definition object_bytes :: "UINT64 \<Rightarrow> nat \<Rightarrow> BYTE" where
  "object_bytes v i = ucast (drop_bit (8 * i) v)"

section \<open>Graphics.cpp\<close>

text \<open>
  \<open>Graphics::Initialize\<close>: the three early returns (lines 71, 115 and 192) and the two blocks
  that set up the shader-visible descriptor heap and the constant-buffer upload heap
  (lines 293 to 360).  The set-up of the command objects, the swap chain and the render-target
  and depth views in between does not touch the variables modelled here and is left out.
\<close>

definition WaitForGPU :: "state \<Rightarrow> state" where
  "WaitForGPU s = issue [Signal] s"

definition Graphics_Initialize :: "device \<Rightarrow> state \<Rightarrow> HRESULT \<times> state" where
  "Graphics_Initialize dev s =
     (if apiInitialized s then (E_FAIL, s)
      else if FAILED (createResult dev) then (createResult dev, s)
      else if FAILED (swapResult dev) then (swapResult dev, s)
      else
        let s1 = issue [GetDescriptorHandleIncrementSize,
                        CreateDescriptorHeap (MaxConstantBuffers + MaxTextureDescriptors)] s;
            s2 = s1\<lparr>cbvSrvDescriptorHeapIncrementSize := ucast (DescriptorHandleIncrementSize dev),
                    CBVSRVDescriptorHeap :=
                      Some \<lparr>NumDescriptors = MaxConstantBuffers + MaxTextureDescriptors\<rparr>,
                    cbvDescriptorOffset := 0,
                    srvDescriptorOffset := MaxConstantBuffers\<rparr>;
            s3 = s2\<lparr>cbUploadHeapSizeInBytes := ucast MaxConstantBuffers * 256,
                    cbUploadHeapOffsetInBytes := 0\<rparr>;
            heap = \<lparr>rid = next_rid s3, Width = cbUploadHeapSizeInBytes s3, Height = 1\<rparr>;
            s4 = issue [CreateCommittedResource (cbUploadHeapSizeInBytes s3) 1 0]
                   (s3\<lparr>CBUploadHeap := Some heap, next_rid := Suc (next_rid s3)\<rparr>);
            s5 = WaitForGPU s4
        in (S_OK, s5\<lparr>apiInitialized := True\<rparr>))"

text \<open>\<open>Graphics::CreateBuffer\<close> (lines 535 to 569): one committed buffer of the given width.
  Heap type, resource state and flags go to the device unchanged and are not recorded.\<close>

definition CreateBuffer :: "UINT64 \<Rightarrow> UINT64 \<Rightarrow> state \<Rightarrow> resource \<times> state" where
  "CreateBuffer bufferSize alignment s =
     (\<lparr>rid = next_rid s, Width = bufferSize, Height = 1\<rparr>,
      issue [CreateCommittedResource bufferSize 1 alignment] (s\<lparr>next_rid := Suc (next_rid s)\<rparr>))"

text \<open>\<open>Graphics::FillNextConstantBufferAndGetGPUDescriptorHandle\<close> (lines 693 to 756).
  The three definitions before it name the values of its local computations.\<close>

definition reservationSize :: "UINT \<Rightarrow> SIZE_T" where
  "reservationSize dataSizeInBytes = (ucast dataSizeInBytes + 255) div 256 * 256"

definition uploadOffset :: "UINT \<Rightarrow> state \<Rightarrow> UINT64" where
  "uploadOffset dataSizeInBytes s =
     (if cbUploadHeapOffsetInBytes s + reservationSize dataSizeInBytes \<ge> cbUploadHeapSizeInBytes s
      then 0 else cbUploadHeapOffsetInBytes s)"

definition cbvSlotHandle :: "SIZE_T \<Rightarrow> state \<Rightarrow> SIZE_T" where
  "cbvSlotHandle heapStart s =
     heapStart + ucast (cbvDescriptorOffset s) * cbvSrvDescriptorHeapIncrementSize s"

definition FillNextConstantBufferAndGetGPUDescriptorHandle ::
    "device \<Rightarrow> (nat \<Rightarrow> BYTE) \<Rightarrow> UINT \<Rightarrow> state \<Rightarrow> (UINT64 \<times> state) result" where
  "FillNextConstantBufferAndGetGPUDescriptorHandle dev data dataSizeInBytes s =
     (let s1 = s\<lparr>cbUploadHeapOffsetInBytes := uploadOffset dataSizeInBytes s\<rparr>
      in case CBUploadHeap s1 of
           None \<Rightarrow> Inl (NullDereference, s1)
         | Some heap \<Rightarrow>
             let virtualGPUAddress = GPUVirtualAddress dev (rid heap) + cbUploadHeapOffsetInBytes s1;
                 s2 = write_resource (rid heap) (cbUploadHeapOffsetInBytes s1) data
                        (unat dataSizeInBytes) s1;
                 s3 = s2\<lparr>cbUploadHeapOffsetInBytes :=
                           cbUploadHeapOffsetInBytes s2 + reservationSize dataSizeInBytes\<rparr>;
                 s4 = (if cbUploadHeapOffsetInBytes s3 \<ge> cbUploadHeapSizeInBytes s3
                       then s3\<lparr>cbUploadHeapOffsetInBytes := 0\<rparr> else s3)
             in case CBVSRVDescriptorHeap s4 of
                  None \<Rightarrow> Inl (NullDereference, s4)
                | Some h \<Rightarrow>
                    let cpuHandle = cbvSlotHandle (CPUDescriptorHandleForHeapStart dev) s4;
                        gpuHandle = cbvSlotHandle (GPUDescriptorHandleForHeapStart dev) s4;
                        s5 = issue [CreateConstantBufferView virtualGPUAddress
                                      (ucast (reservationSize dataSizeInBytes)) cpuHandle] s4;
                        s6 = s5\<lparr>cbvDescriptorOffset := cbvDescriptorOffset s5 + 1\<rparr>;
                        s7 = (if cbvDescriptorOffset s6 \<ge> MaxConstantBuffers
                              then s6\<lparr>cbvDescriptorOffset := 0\<rparr> else s6)
                    in Inr (gpuHandle, s7))"

text \<open>\<open>Graphics::ReserveSrvUavDescriptorHeapSlot\<close> (lines 844 to 859).  Both call sites pass
  both out-pointers, so both handles are returned.\<close>

definition ReserveSrvUavDescriptorHeapSlot ::
    "device \<Rightarrow> state \<Rightarrow> (SIZE_T \<times> UINT64 \<times> state) result" where
  "ReserveSrvUavDescriptorHeapSlot dev s =
     (case CBVSRVDescriptorHeap s of
        None \<Rightarrow> Inl (NullDereference, s)
      | Some h \<Rightarrow>
          let cpuHandle = CPUDescriptorHandleForHeapStart dev
                            + ucast (srvDescriptorOffset s) * cbvSrvDescriptorHeapIncrementSize s;
              gpuHandle = GPUDescriptorHandleForHeapStart dev
                            + ucast (srvDescriptorOffset s) * cbvSrvDescriptorHeapIncrementSize s
          in Inr (cpuHandle, gpuHandle, s\<lparr>srvDescriptorOffset := srvDescriptorOffset s + 1\<rparr>))"

definition ResetAllocatorAndCommandList :: "UINT \<Rightarrow> state \<Rightarrow> state" where
  "ResetAllocatorAndCommandList swapChainIndex s =
     issue [ResetAllocator swapChainIndex, ResetCommandList swapChainIndex] s"

section \<open>RayTracing.cpp\<close>

text \<open>\<open>CreateRaytracingRootSignatures\<close> (lines 70 to 178) and \<open>CreateRaytracingPipelineState\<close>
  (lines 185 to 347): the guard and the device calls.  The contents of the root signatures and
  of the ten pipeline subobjects are fixed data handed to the device.\<close>

definition CreateRaytracingRootSignatures :: "state \<Rightarrow> state" where
  "CreateRaytracingRootSignatures s =
     (if dxrInitialized s \<or> \<not> dxrAvailable s then s
      else issue [CreateRootSignature, CreateRootSignature] s)"

definition CreateRaytracingPipelineState :: "state \<Rightarrow> state" where
  "CreateRaytracingPipelineState s =
     (if dxrInitialized s \<or> \<not> dxrAvailable s then s
      else issue [CreateStateObject] s)"

text \<open>\<open>CreateShaderTable\<close> (lines 356 to 404).  \<open>shaderRecordSize\<close> is the value assigned to
  \<open>ShaderTableRecordSize\<close> at line 380 and \<open>shaderTableSize\<close> the local of lines 383 and 384.\<close>

definition shaderRecordSize :: "d3d12_constants \<Rightarrow> UINT64" where
  "shaderRecordSize c =
     (let shaderTableRayGenRecordSize = ucast (D3D12_SHADER_IDENTIFIER_SIZE_IN_BYTES c);
          shaderTableMissRecordSize = ucast (D3D12_SHADER_IDENTIFIER_SIZE_IN_BYTES c);
          shaderTableHitGroupRecordSize = ucast (D3D12_SHADER_IDENTIFIER_SIZE_IN_BYTES c)
                                            + ucast (sizeof_D3D12_GPU_DESCRIPTOR_HANDLE c) * 2;
          shaderTableRayGenRecordSize = ALIGN shaderTableRayGenRecordSize
              (ucast (D3D12_RAYTRACING_SHADER_RECORD_BYTE_ALIGNMENT c));
          shaderTableMissRecordSize = ALIGN shaderTableMissRecordSize
              (ucast (D3D12_RAYTRACING_SHADER_RECORD_BYTE_ALIGNMENT c));
          shaderTableHitGroupRecordSize = ALIGN shaderTableHitGroupRecordSize
              (ucast (D3D12_RAYTRACING_SHADER_RECORD_BYTE_ALIGNMENT c))
      in max shaderTableRayGenRecordSize (max shaderTableMissRecordSize shaderTableHitGroupRecordSize))"

definition shaderTableSize :: "d3d12_constants \<Rightarrow> UINT64" where
  "shaderTableSize c =
     ALIGN (shaderRecordSize c * 3) (ucast (D3D12_RAYTRACING_SHADER_TABLE_BYTE_ALIGNMENT c))"

definition CreateShaderTable :: "d3d12_constants \<Rightarrow> device \<Rightarrow> state \<Rightarrow> state" where
  "CreateShaderTable c dev s =
     (if dxrInitialized s \<or> \<not> dxrAvailable s then s
      else
        let s1 = s\<lparr>ShaderTableRecordSize := shaderRecordSize c\<rparr>;
            (table, s2) = CreateBuffer (shaderTableSize c) 0 s1;
            s3 = s2\<lparr>ShaderTable := Some table\<rparr>;
            idBytes = unat (D3D12_SHADER_IDENTIFIER_SIZE_IN_BYTES c);
            shaderTableData = 0;
            s4 = write_resource (rid table) shaderTableData (ShaderIdentifier dev ''RayGen'') idBytes s3;
            shaderTableData = shaderTableData + ShaderTableRecordSize s4;
            s5 = write_resource (rid table) shaderTableData (ShaderIdentifier dev ''Miss'') idBytes s4;
            shaderTableData = shaderTableData + ShaderTableRecordSize s5
        in write_resource (rid table) shaderTableData (ShaderIdentifier dev ''HitGroup'') idBytes s5)"

text \<open>\<open>CreateRaytracingOutputUAV\<close> (lines 413 to 462).\<close>

definition CreateRaytracingOutputUAV :: "device \<Rightarrow> UINT \<Rightarrow> UINT \<Rightarrow> state \<Rightarrow> state result" where
  "CreateRaytracingOutputUAV dev width height s =
     (let out = \<lparr>rid = next_rid s, Width = ucast width, Height = height\<rparr>;
          s1 = issue [CreateCommittedResource (ucast width) height 0]
                 (s\<lparr>RaytracingOutput := Some out, next_rid := Suc (next_rid s)\<rparr>)
      in case (if RaytracingOutputUAV_GPU s1 = 0
               then (case ReserveSrvUavDescriptorHeapSlot dev s1 of
                       Inl f \<Rightarrow> Inl f
                     | Inr (cpu, gpu, s2) \<Rightarrow>
                         Inr (s2\<lparr>RaytracingOutputUAV_CPU := cpu, RaytracingOutputUAV_GPU := gpu\<rparr>))
               else Inr s1) of
           Inl f \<Rightarrow> Inl f
         | Inr s3 \<Rightarrow>
             Inr (issue [CreateUnorderedAccessView (rid out) (RaytracingOutputUAV_CPU s3)] s3))"

text \<open>\<open>RayTracing::Initialize\<close> (lines 28 to 62).  The shader library file name only selects
  the blob read by \<open>CreateRaytracingPipelineState\<close> and is not a parameter here.\<close>

definition RayTracing_Initialize ::
    "d3d12_constants \<Rightarrow> device \<Rightarrow> UINT \<Rightarrow> UINT \<Rightarrow> state \<Rightarrow> (HRESULT \<times> state) result" where
  "RayTracing_Initialize c dev outputWidth outputHeight s =
     (let s1 = issue [CheckFeatureSupport, QueryInterface, QueryInterface] s
      in if FAILED (supportResult dev) \<or> RaytracingTier dev = D3D12_RAYTRACING_TIER_NOT_SUPPORTED
         then Inr (supportResult dev, s1)
         else if FAILED (dxrDeviceResult dev) then Inr (dxrDeviceResult dev, s1)
         else if FAILED (dxrCommandListResult dev) then Inr (dxrCommandListResult dev, s1)
         else
           let s2 = s1\<lparr>dxrAvailable := True\<rparr>;
               s3 = CreateRaytracingRootSignatures s2;
               s4 = CreateRaytracingPipelineState s3;
               s5 = CreateShaderTable c dev s4
           in case CreateRaytracingOutputUAV dev outputWidth outputHeight s5 of
                Inl f \<Rightarrow> Inl f
              | Inr s6 \<Rightarrow> Inr (S_OK, s6\<lparr>dxrInitialized := True\<rparr>))"

text \<open>\<open>ResizeOutputUAV\<close> (lines 468 to 481).\<close>

definition ResizeOutputUAV :: "device \<Rightarrow> UINT \<Rightarrow> UINT \<Rightarrow> state \<Rightarrow> state result" where
  "ResizeOutputUAV dev outputWidth outputHeight s =
     (if \<not> dxrInitialized s \<or> \<not> dxrAvailable s then Inr s
      else CreateRaytracingOutputUAV dev outputWidth outputHeight
             ((WaitForGPU s)\<lparr>RaytracingOutput := None\<rparr>))"

text \<open>A mesh as \<open>CreateBLAS\<close> sees it (Mesh.h): its two GPU buffers and its counts.\<close>

record Mesh =
  numIndices :: "32 word"
  numVertices :: "32 word"
  vertexBuffer :: resource
  indexBuffer :: resource

text \<open>\<open>CreateBLAS\<close> (lines 490 to 609).  The geometry description is handed to the device,
  which answers with the prebuild sizes.\<close>

definition CreateBLAS :: "d3d12_constants \<Rightarrow> device \<Rightarrow> Mesh \<Rightarrow> state \<Rightarrow> state result" where
  "CreateBLAS c dev mesh s =
     (if \<not> dxrAvailable s then Inr s
      else
        let s1 = issue [GetRaytracingAccelerationStructurePrebuildInfo BOTTOM_LEVEL] s;
            (ScratchDataSizeInBytes, ResultDataMaxSizeInBytes) = PrebuildInfo dev BOTTOM_LEVEL;
            ScratchDataSizeInBytes = ALIGN ScratchDataSizeInBytes
                (ucast (D3D12_RAYTRACING_ACCELERATION_STRUCTURE_BYTE_ALIGNMENT c));
            ResultDataMaxSizeInBytes = ALIGN ResultDataMaxSizeInBytes
                (ucast (D3D12_RAYTRACING_ACCELERATION_STRUCTURE_BYTE_ALIGNMENT c));
            alignment = ucast (max (D3D12_RAYTRACING_ACCELERATION_STRUCTURE_BYTE_ALIGNMENT c)
                                   (D3D12_DEFAULT_RESOURCE_PLACEMENT_ALIGNMENT c));
            (scratch, s2) = CreateBuffer ScratchDataSizeInBytes alignment s1;
            s3 = s2\<lparr>BLASScratchBuffer := Some scratch\<rparr>;
            (blas, s4) = CreateBuffer ResultDataMaxSizeInBytes alignment s3;
            s5 = s4\<lparr>BLAS := Some blas\<rparr>;
            s6 = issue [BuildRaytracingAccelerationStructure BOTTOM_LEVEL 1
                          (GPUVirtualAddress dev (rid scratch)) (GPUVirtualAddress dev (rid blas)),
                        ResourceBarrier 1] s5
        in case ReserveSrvUavDescriptorHeapSlot dev s6 of
             Inl f \<Rightarrow> Inl f
           | Inr (ib_cpu, ib_gpu, s7) \<Rightarrow>
               (case ReserveSrvUavDescriptorHeapSlot dev (s7\<lparr>indexBufferSRV := ib_gpu\<rparr>) of
                  Inl f \<Rightarrow> Inl f
                | Inr (vb_cpu, vb_gpu, s8) \<Rightarrow>
                    let s9 = issue [CreateShaderResourceView (rid (indexBuffer mesh)) ib_cpu,
                                    CreateShaderResourceView (rid (vertexBuffer mesh)) vb_cpu]
                               (s8\<lparr>vertexBufferSRV := vb_gpu\<rparr>)
                    in case ShaderTable s9 of
                         None \<Rightarrow> Inl (NullDereference, s9)
                       | Some table \<Rightarrow>
                           let tablePointer = 0;
                               tablePointer = tablePointer
                                 + (ShaderTableRecordSize s9 + ShaderTableRecordSize s9);
                               tablePointer = tablePointer
                                 + (ucast (D3D12_SHADER_IDENTIFIER_SIZE_IN_BYTES c)
                                    + ucast (sizeof_D3D12_GPU_DESCRIPTOR_HANDLE c))
                           in Inr (write_resource (rid table) tablePointer
                                     (object_bytes (indexBufferSRV s9))
                                     (unat (sizeof_D3D12_GPU_DESCRIPTOR_HANDLE c)) s9)))"

text \<open>\<open>CreateTLAS\<close> (lines 617 to 704).  The instance description has the identity as its
  3x4 transform (the floats 0 and 1, written as integers); \<open>instance_bytes\<close> stands for the
  object representation of the SDK structure.\<close>

definition CreateTLAS ::
    "d3d12_constants \<Rightarrow> (D3D12_RAYTRACING_INSTANCE_DESC \<Rightarrow> nat \<Rightarrow> BYTE) \<Rightarrow> device \<Rightarrow> state
       \<Rightarrow> state result" where
  "CreateTLAS c instance_bytes dev s =
     (if \<not> dxrAvailable s then Inr s
      else case BLAS s of
        None \<Rightarrow> Inl (NullDereference, s)
      | Some blas \<Rightarrow>
          let instanceDesc =
                \<lparr>Transform = [[1, 0, 0, 0], [0, 1, 0, 0], [0, 0, 1, 0]],
                 InstanceID = 0,
                 InstanceMask = 0xFF,
                 InstanceContributionToHitGroupIndex = 0,
                 Flags = D3D12_RAYTRACING_INSTANCE_FLAG_NONE c,
                 AccelerationStructure = GPUVirtualAddress dev (rid blas)\<rparr>;
              (instances, s1) = CreateBuffer (ucast (sizeof_D3D12_RAYTRACING_INSTANCE_DESC c)) 0 s;
              s2 = s1\<lparr>TLASInstanceDescBuffer := Some instances\<rparr>;
              s3 = write_resource (rid instances) 0 (instance_bytes instanceDesc)
                     (unat (sizeof_D3D12_RAYTRACING_INSTANCE_DESC c)) s2;
              s4 = issue [GetRaytracingAccelerationStructurePrebuildInfo TOP_LEVEL] s3;
              (ScratchDataSizeInBytes, ResultDataMaxSizeInBytes) = PrebuildInfo dev TOP_LEVEL;
              ScratchDataSizeInBytes = ALIGN ScratchDataSizeInBytes
                  (ucast (D3D12_RAYTRACING_ACCELERATION_STRUCTURE_BYTE_ALIGNMENT c));
              ResultDataMaxSizeInBytes = ALIGN ResultDataMaxSizeInBytes
                  (ucast (D3D12_RAYTRACING_ACCELERATION_STRUCTURE_BYTE_ALIGNMENT c));
              alignment = ucast (max (D3D12_RAYTRACING_ACCELERATION_STRUCTURE_BYTE_ALIGNMENT c)
                                     (D3D12_DEFAULT_RESOURCE_PLACEMENT_ALIGNMENT c));
              (scratch, s5) = CreateBuffer ScratchDataSizeInBytes alignment s4;
              s6 = s5\<lparr>TLASScratchBuffer := Some scratch\<rparr>;
              (tlas, s7) = CreateBuffer ResultDataMaxSizeInBytes alignment s6;
              s8 = s7\<lparr>TLAS := Some tlas\<rparr>;
              s9 = issue [BuildRaytracingAccelerationStructure TOP_LEVEL 1
                            (GPUVirtualAddress dev (rid scratch)) (GPUVirtualAddress dev (rid tlas)),
                          ResourceBarrier 1, Close, ExecuteCommandLists] s8
          in Inr (ResetAllocatorAndCommandList 0 (WaitForGPU s9)))"

text \<open>\<open>Raytrace\<close> (lines 710 to 814).  The camera enters through \<open>sceneData\<close>, the bytes of
  the filled \<open>RaytracingSceneData\<close> (a position and an inverted matrix of floats); the window
  size is what \<open>Window::Width()\<close> and \<open>Window::Height()\<close> return.\<close>

definition dispatchDesc :: "device \<Rightarrow> resource \<Rightarrow> UINT \<Rightarrow> UINT \<Rightarrow> state \<Rightarrow> D3D12_DISPATCH_RAYS_DESC" where
  "dispatchDesc dev table windowWidth windowHeight s =
     \<lparr>RayGenerationShaderRecord_StartAddress = GPUVirtualAddress dev (rid table),
      RayGenerationShaderRecord_SizeInBytes = ShaderTableRecordSize s,
      MissShaderTable_StartAddress = GPUVirtualAddress dev (rid table) + ShaderTableRecordSize s,
      MissShaderTable_SizeInBytes = ShaderTableRecordSize s,
      MissShaderTable_StrideInBytes = ShaderTableRecordSize s,
      HitGroupTable_StartAddress = GPUVirtualAddress dev (rid table) + ShaderTableRecordSize s * 2,
      HitGroupTable_SizeInBytes = ShaderTableRecordSize s,
      HitGroupTable_StrideInBytes = ShaderTableRecordSize s,
      Dispatch_Width = windowWidth,
      Dispatch_Height = windowHeight,
      Dispatch_Depth = 1\<rparr>"

definition Raytrace ::
    "d3d12_constants \<Rightarrow> device \<Rightarrow> (nat \<Rightarrow> BYTE) \<Rightarrow> resource option \<Rightarrow> UINT \<Rightarrow> UINT \<Rightarrow> state
       \<Rightarrow> state result" where
  "Raytrace c dev sceneData currentBackBuffer windowWidth windowHeight s =
     (if \<not> dxrInitialized s \<or> \<not> dxrAvailable s then Inr s
      else
        let s1 = issue [ResourceBarrier 2] s
        in case FillNextConstantBufferAndGetGPUDescriptorHandle dev sceneData
                  (sizeof_RaytracingSceneData c) s1 of
             Inl f \<Rightarrow> Inl f
           | Inr (cbuffer, s2) \<Rightarrow>
               let s3 = issue [SetDescriptorHeaps, SetPipelineState1, SetComputeRootSignature,
                               SetComputeRootDescriptorTable 0 (RaytracingOutputUAV_GPU s2)] s2
               in case TLAS s3 of
                    None \<Rightarrow> Inl (NullDereference, s3)
                  | Some tlas \<Rightarrow>
                      let s4 = issue [SetComputeRootShaderResourceView 1
                                        (GPUVirtualAddress dev (rid tlas)),
                                      SetComputeRootDescriptorTable 2 cbuffer] s3
                      in case ShaderTable s4 of
                           None \<Rightarrow> Inl (NullDereference, s4)
                         | Some table \<Rightarrow>
                             Inr (issue [DispatchRays (dispatchDesc dev table windowWidth windowHeight s4),
                                         ResourceBarrier 1,
                                         CopyResource (map_option rid currentBackBuffer)
                                                      (map_option rid (RaytracingOutput s4)),
                                         ResourceBarrier 1,
                                         Close,
                                         ExecuteCommandLists] s4))"

section \<open>Sequences of entry-point calls\<close>

text \<open>The game loop calls \<open>Raytrace\<close> once per frame (Game.cpp, line 110) and
  \<open>ResizeOutputUAV\<close> on every resize (line 80), in an order the window system decides.\<close>

datatype entry_call =
    Call_Raytrace "nat \<Rightarrow> BYTE" "resource option" UINT UINT
  | Call_ResizeOutputUAV UINT UINT

fun run_calls :: "d3d12_constants \<Rightarrow> device \<Rightarrow> entry_call list \<Rightarrow> state \<Rightarrow> state result" where
  "run_calls c dev [] s = Inr s"
| "run_calls c dev (Call_Raytrace sceneData bb w h # rest) s =
     (case Raytrace c dev sceneData bb w h s of
        Inl f \<Rightarrow> Inl f
      | Inr s' \<Rightarrow> run_calls c dev rest s')"
| "run_calls c dev (Call_ResizeOutputUAV w h # rest) s =
     (case ResizeOutputUAV dev w h s of
        Inl f \<Rightarrow> Inl f
      | Inr s' \<Rightarrow> run_calls c dev rest s')"


section \<open>Concrete inputs\<close>

text \<open>The values the Windows SDK headers give to the constants (the code's own comment at
  line 368 counts 32 bytes for an identifier and 8 for a descriptor table pointer), a device
  that supports ray tracing, one that reports the tier as unsupported while the query itself
  succeeds, one that answers a prebuild query with the largest 64-bit size, an all-zero
  memory, and a mesh.\<close>

definition sdk_constants :: d3d12_constants where
  "sdk_constants =
     \<lparr>D3D12_SHADER_IDENTIFIER_SIZE_IN_BYTES = 32,
      sizeof_D3D12_GPU_DESCRIPTOR_HANDLE = 8,
      D3D12_RAYTRACING_SHADER_RECORD_BYTE_ALIGNMENT = 32,
      D3D12_RAYTRACING_SHADER_TABLE_BYTE_ALIGNMENT = 64,
      D3D12_RAYTRACING_ACCELERATION_STRUCTURE_BYTE_ALIGNMENT = 256,
      D3D12_DEFAULT_RESOURCE_PLACEMENT_ALIGNMENT = 65536,
      sizeof_D3D12_RAYTRACING_INSTANCE_DESC = 64,
      sizeof_RaytracingSceneData = 76,
      D3D12_RAYTRACING_INSTANCE_FLAG_NONE = 0\<rparr>"

definition example_device :: device where
  "example_device =
     \<lparr>createResult = 0,
      swapResult = 0,
      supportResult = 0,
      RaytracingTier = D3D12_RAYTRACING_TIER_1_1,
      dxrDeviceResult = 0,
      dxrCommandListResult = 0,
      DescriptorHandleIncrementSize = 32,
      CPUDescriptorHandleForHeapStart = 0x1000,
      GPUDescriptorHandleForHeapStart = 0x10000,
      GPUVirtualAddress = (\<lambda>n. 0x100000 * (of_nat n + 1)),
      PrebuildInfo = (\<lambda>t. (1000, 5000)),
      ShaderIdentifier = (\<lambda>name i. if name = ''RayGen'' then 0x11
                                  else if name = ''Miss'' then 0x22 else 0x33)\<rparr>"

definition unsupported_device :: device where
  "unsupported_device = example_device\<lparr>RaytracingTier := D3D12_RAYTRACING_TIER_NOT_SUPPORTED\<rparr>"

definition huge_prebuild_device :: device where
  "huge_prebuild_device = example_device\<lparr>PrebuildInfo := (\<lambda>t. (0xFFFFFFFFFFFFFFFF, 0xFFFFFFFFFFFFFF01))\<rparr>"

definition zero_memory :: "nat \<Rightarrow> UINT64 \<Rightarrow> BYTE" where
  "zero_memory r a = 0"

definition example_mesh :: Mesh where
  "example_mesh =
     \<lparr>numIndices = 3, numVertices = 3,
      vertexBuffer = \<lparr>rid = 100, Width = 132, Height = 1\<rparr>,
      indexBuffer = \<lparr>rid = 101, Width = 12, Height = 1\<rparr>\<rparr>"

definition zero_instance_bytes :: "D3D12_RAYTRACING_INSTANCE_DESC \<Rightarrow> nat \<Rightarrow> BYTE" where
  "zero_instance_bytes d i = 0"


definition zero_scene :: "nat \<Rightarrow> BYTE" where
  "zero_scene i = 0"

section \<open>Vocabulary of the statements\<close>

text \<open>The state a call stops in: after a fault, the state reached; otherwise the result.\<close>

definition reached :: "state result \<Rightarrow> state" where
  "reached r = (case r of Inl (f, s) \<Rightarrow> s | Inr s \<Rightarrow> s)"

text \<open>The invariant of the two ring allocators of Graphics.cpp: the upload heap has its
  capacity of \<open>MaxConstantBuffers * 256\<close> bytes, the upload offset is a multiple of 256 below
  that capacity, and the constant-buffer-view cursor is below \<open>MaxConstantBuffers\<close>.\<close>

definition allocator_inv :: "state \<Rightarrow> bool" where
  "allocator_inv s \<longleftrightarrow>
     cbUploadHeapSizeInBytes s = ucast MaxConstantBuffers * 256
   \<and> unat (cbUploadHeapOffsetInBytes s) mod 256 = 0
   \<and> cbUploadHeapOffsetInBytes s < cbUploadHeapSizeInBytes s
   \<and> cbvDescriptorOffset s < MaxConstantBuffers"

text \<open>Reading \<open>n\<close> bytes of a mapped resource from an offset, and the first \<open>n\<close> bytes of
  the object representation of a handle.\<close>

fun read_bytes :: "(UINT64 \<Rightarrow> BYTE) \<Rightarrow> UINT64 \<Rightarrow> nat \<Rightarrow> BYTE list" where
  "read_bytes mem p 0 = []"
| "read_bytes mem p (Suc n) = read_bytes mem p n @ [mem (p + of_nat n)]"

fun bytes_of :: "UINT64 \<Rightarrow> nat \<Rightarrow> BYTE list" where
  "bytes_of v 0 = []"
| "bytes_of v (Suc n) = bytes_of v n @ [object_bytes v n]"

text \<open>A process started on a device as Main.cpp and Game.cpp start it:
  \<open>Graphics::Initialize\<close>, then \<open>RayTracing::Initialize\<close> with the SDK constants and a
  1280 by 720 window; then the bottom-level and the top-level structure are built.\<close>

definition graphics_started :: "device \<Rightarrow> state" where
  "graphics_started dev = snd (Graphics_Initialize dev (initial_state zero_memory))"

definition started :: "device \<Rightarrow> state" where
  "started dev =
     reached (map_sum id snd
       (RayTracing_Initialize sdk_constants dev 1280 720 (graphics_started dev)))"

definition blas_built :: "device \<Rightarrow> state" where
  "blas_built dev = reached (CreateBLAS sdk_constants dev example_mesh (started dev))"

definition scene_built :: "device \<Rightarrow> state" where
  "scene_built dev = reached (CreateTLAS sdk_constants zero_instance_bytes dev (blas_built dev))"

section \<open>Alignment arithmetic\<close>

lemma unat_UINT_less: "unat (x :: UINT) < 4294967296"
  using unsigned_less [of x] by simp

lemma unat_ucast_UINT [simp]: "unat (ucast (x :: UINT) :: UINT64) = unat x"
proof -
  have "unat x < 2 ^ 64" using unat_UINT_less [of x] by simp
  then show ?thesis by (simp add: unsigned_ucast_eq take_bit_nat_eq_self_iff)
qed

lemma ucast_UINT_pos: "0 < (a :: UINT) \<Longrightarrow> 0 < unat (ucast a :: UINT64)"
  by (simp add: word_less_nat_alt)

lemma round_up_nat:
  assumes a: "0 < a"
  shows "((v + a - 1) div a) * a = align_up v a"
proof -
  define q where "q = v div a"
  define r where "r = v mod a"
  have v: "v = a * q + r" by (simp add: q_def r_def)
  have r: "r < a" using a by (simp add: r_def)
  show ?thesis
  proof (cases "r = 0")
    case True
    have "v + a - 1 = a * q + (a - 1)" using v True a by simp
    then have "(v + a - 1) div a = q + (a - 1) div a"
      using a div_mult_self4 [of a q "a - 1"] by simp
    then have "(v + a - 1) div a = q" using a by simp
    then show ?thesis using True v by (simp add: align_up_def r_def [symmetric] mult.commute)
  next
    case False
    have "v + a - 1 = a * (q + 1) + (r - 1)" using v False a by (simp add: algebra_simps)
    then have "(v + a - 1) div a = (q + 1) + (r - 1) div a"
      using a div_mult_self4 [of a "q + 1" "r - 1"] by simp
    moreover have "(r - 1) div a = 0" using r by simp
    ultimately have "(v + a - 1) div a = q + 1" by simp
    then have "(v + a - 1) div a * a = a * q + a" by (simp add: algebra_simps)
    also have "\<dots> = v + (a - r)" using v r by simp
    finally show ?thesis using False by (simp add: align_up_def r_def [symmetric])
  qed
qed

lemma align_up_dvd: "0 < a \<Longrightarrow> a dvd align_up v a"
  by (metis round_up_nat dvd_triv_right)

lemma align_up_ge:
  assumes "0 < a"
  shows "v \<le> align_up v a"
proof -
  have "v mod a \<le> a" using assms by (simp add: less_imp_le)
  then show ?thesis unfolding align_up_def by (cases "v mod a = 0") auto
qed

lemma align_up_less: "0 < a \<Longrightarrow> align_up v a < v + a"
  by (simp add: align_up_def)

lemma align_up_least:
  assumes "0 < a" "a dvd m" "v \<le> m"
  shows "align_up v a \<le> m"
proof (rule ccontr)
  assume "\<not> align_up v a \<le> m"
  then have lt: "m < align_up v a" by simp
  from assms(2) obtain k where k: "m = a * k" by (auto simp: dvd_def)
  from align_up_dvd [OF assms(1), of v] obtain j where j: "align_up v a = a * j"
    by (auto simp: dvd_def)
  from lt k j assms(1) have "k < j" by simp
  then have "k + 1 \<le> j" by simp
  then have "a * (k + 1) \<le> a * j" by (rule mult_le_mono2)
  then have "m + a \<le> align_up v a" using k j by (simp add: algebra_simps)
  with align_up_less [OF assms(1), of v] assms(3) show False by simp
qed

lemma align_up_mono: "0 < a \<Longrightarrow> v \<le> w \<Longrightarrow> align_up v a \<le> align_up w a"
  by (meson align_up_dvd align_up_ge align_up_least le_trans)

lemma ALIGN_unat:
  assumes a: "0 < unat a" and b: "unat v + unat a \<le> 2 ^ 64"
  shows "unat (ALIGN v a) = align_up (unat v) (unat a)"
proof -
  have s: "unat (v + a - 1) = unat v + unat a - 1"
  proof (cases "unat v + unat a = 2 ^ 64")
    case True
    then have "unat (v + a) = 0" by (simp add: unat_word_ariths)
    then have "v + a = 0" by (simp add: unat_eq_0)
    then show ?thesis using True by (simp add: unsigned_minus_1_eq_mask mask_eq_exp_minus_1)
  next
    case False
    with b have lt: "unat v + unat a < 2 ^ 64" by simp
    then have va: "unat (v + a) = unat v + unat a" by (simp add: unat_word_ariths)
    with a have "1 \<le> v + a" by (simp add: word_le_nat_alt)
    then show ?thesis using va by (simp add: unat_sub)
  qed
  have d: "unat ((v + a - 1) div a) = (unat v + unat a - 1) div unat a"
    by (simp add: unat_div s)
  have le: "(unat v + unat a - 1) div unat a * unat a \<le> unat v + unat a - 1"
    by simp
  define x where "x = (v + a - 1) div a"
  have "unat (x * a) = (unat x * unat a) mod 2 ^ 64"
    by (simp add: unat_word_ariths)
  then have "unat (ALIGN v a) = ((unat v + unat a - 1) div unat a * unat a) mod 2 ^ 64"
    unfolding ALIGN_def x_def d .
  also have "\<dots> = (unat v + unat a - 1) div unat a * unat a"
  proof (rule mod_less)
    show "(unat v + unat a - 1) div unat a * unat a < 2 ^ 64"
      using le a b by linarith
  qed
  finally show ?thesis using round_up_nat [OF a, of "unat v"] by simp
qed

lemma ALIGN_small:
  assumes a: "0 < (a :: UINT)" and v: "unat v < 2 ^ 63"
  shows "unat (ALIGN v (ucast a)) = align_up (unat v) (unat a)"
proof -
  have "unat a < 2 ^ 63" using unat_UINT_less [of a] by simp
  with v have "unat v + unat (ucast a :: UINT64) \<le> 2 ^ 64" by simp
  moreover have "0 < unat (ucast a :: UINT64)" using a by (simp add: word_less_nat_alt)
  ultimately show ?thesis using ALIGN_unat [of "ucast a" v] by simp
qed

lemma hitGroup_unat:
  "unat (ucast (i :: UINT) + ucast (h :: UINT) * (2 :: UINT64)) = unat i + 2 * unat h"
proof -
  have h2: "unat (ucast h * (2 :: UINT64)) = unat h * 2"
    using unat_UINT_less [of h] by (simp add: unat_word_ariths)
  have "unat (ucast i + ucast h * (2 :: UINT64)) = (unat i + unat h * 2) mod 2 ^ 64"
    by (simp only: unat_word_ariths(1) h2 unat_ucast_UINT) simp
  then show ?thesis using unat_UINT_less [of h] unat_UINT_less [of i] by simp
qed

lemma shaderRecordSize_unat:
  assumes "0 < D3D12_RAYTRACING_SHADER_RECORD_BYTE_ALIGNMENT c"
  shows "unat (shaderRecordSize c) =
         align_up (unat (D3D12_SHADER_IDENTIFIER_SIZE_IN_BYTES c)
                   + 2 * unat (sizeof_D3D12_GPU_DESCRIPTOR_HANDLE c))
                  (unat (D3D12_RAYTRACING_SHADER_RECORD_BYTE_ALIGNMENT c))"
proof -
  let ?i = "D3D12_SHADER_IDENTIFIER_SIZE_IN_BYTES c"
  let ?h = "sizeof_D3D12_GPU_DESCRIPTOR_HANDLE c"
  let ?a = "D3D12_RAYTRACING_SHADER_RECORD_BYTE_ALIGNMENT c"
  have apos: "0 < unat ?a" using assms by (simp add: word_less_nat_alt)
  have 1: "unat (ALIGN (ucast ?i) (ucast ?a)) = align_up (unat ?i) (unat ?a)"
    using ALIGN_small [OF assms, of "ucast ?i"] unat_UINT_less [of ?i] by simp
  have 2: "unat (ALIGN (ucast ?i + ucast ?h * 2) (ucast ?a)) = align_up (unat ?i + 2 * unat ?h) (unat ?a)"
    using ALIGN_small [OF assms, of "ucast ?i + ucast ?h * 2"] unat_UINT_less [of ?i] unat_UINT_less [of ?h]
    by (simp add: hitGroup_unat)
  have le: "ALIGN (ucast ?i) (ucast ?a) \<le> ALIGN (ucast ?i + ucast ?h * 2) (ucast ?a)"
    unfolding word_le_nat_alt 1 2 by (rule align_up_mono [OF apos]) simp
  show ?thesis
    unfolding shaderRecordSize_def Let_def using le by (simp add: max_def 2)
qed

section \<open>The shader table: stride and length\<close>

lemma shaderRecordSize_less:
  assumes "0 < D3D12_RAYTRACING_SHADER_RECORD_BYTE_ALIGNMENT c"
  shows "unat (shaderRecordSize c) < 4 * 4294967296"
proof -
  let ?i = "D3D12_SHADER_IDENTIFIER_SIZE_IN_BYTES c"
  let ?h = "sizeof_D3D12_GPU_DESCRIPTOR_HANDLE c"
  let ?a = "D3D12_RAYTRACING_SHADER_RECORD_BYTE_ALIGNMENT c"
  have "0 < unat ?a" using assms by (simp add: word_less_nat_alt)
  then have "align_up (unat ?i + 2 * unat ?h) (unat ?a) < unat ?i + 2 * unat ?h + unat ?a"
    by (rule align_up_less)
  then show ?thesis
    using unat_UINT_less [of ?i] unat_UINT_less [of ?h] unat_UINT_less [of ?a]
    by (simp add: shaderRecordSize_unat [OF assms])
qed

lemma shaderRecordSize_ge:
  assumes "0 < D3D12_RAYTRACING_SHADER_RECORD_BYTE_ALIGNMENT c"
  shows "unat (D3D12_SHADER_IDENTIFIER_SIZE_IN_BYTES c)
           + 2 * unat (sizeof_D3D12_GPU_DESCRIPTOR_HANDLE c) \<le> unat (shaderRecordSize c)"
proof -
  have "0 < unat (D3D12_RAYTRACING_SHADER_RECORD_BYTE_ALIGNMENT c)"
    using assms by (simp add: word_less_nat_alt)
  then show ?thesis by (simp add: shaderRecordSize_unat [OF assms] align_up_ge)
qed

lemma shaderTableSize_unat:
  assumes r: "0 < D3D12_RAYTRACING_SHADER_RECORD_BYTE_ALIGNMENT c"
    and t: "0 < D3D12_RAYTRACING_SHADER_TABLE_BYTE_ALIGNMENT c"
  shows "unat (shaderTableSize c) =
         align_up (3 * unat (shaderRecordSize c))
                  (unat (D3D12_RAYTRACING_SHADER_TABLE_BYTE_ALIGNMENT c))"
proof -
  have m: "unat (shaderRecordSize c * 3) = 3 * unat (shaderRecordSize c)"
    using shaderRecordSize_less [OF r] by (simp add: unat_word_ariths)
  have "unat (shaderRecordSize c * 3) < 2 ^ 63"
    using shaderRecordSize_less [OF r] unfolding m by simp
  then show ?thesis
    unfolding shaderTableSize_def using ALIGN_small [OF t, of "shaderRecordSize c * 3"] m by simp
qed

lemma CreateShaderTable_fields:
  assumes "dxrAvailable s" "\<not> dxrInitialized s"
  shows "ShaderTableRecordSize (CreateShaderTable c dev s) = shaderRecordSize c"
    and "ShaderTable (CreateShaderTable c dev s)
           = Some \<lparr>rid = next_rid s, Width = shaderTableSize c, Height = 1\<rparr>"
    and "calls (CreateShaderTable c dev s)
           = calls s @ [CreateCommittedResource (shaderTableSize c) 1 0]"
  using assms
  by (simp_all add: CreateShaderTable_def CreateBuffer_def issue_def write_resource_def Let_def)


text \<open>
  C1.  \<open>CreateShaderTable\<close> computes the record stride as the maximum of the three candidate
  record sizes, each aligned on its own with \<open>ALIGN\<close> in 64-bit arithmetic.  For every
  identifier size, handle size and positive alignments, that stride is the specification's
  \<open>align(max(idSize, idSize + 2 * h), rA)\<close>, and the width of the buffer created for the table is
  \<open>align(3 * stride, tA)\<close>.
\<close>

theorem CreateShaderTable_stride_and_length:
  assumes "dxrAvailable s" and "\<not> dxrInitialized s"
    and "0 < D3D12_RAYTRACING_SHADER_RECORD_BYTE_ALIGNMENT c"
    and "0 < D3D12_RAYTRACING_SHADER_TABLE_BYTE_ALIGNMENT c"
  shows "unat (ShaderTableRecordSize (CreateShaderTable c dev s)) =
           align_up (max (unat (D3D12_SHADER_IDENTIFIER_SIZE_IN_BYTES c))
                         (unat (D3D12_SHADER_IDENTIFIER_SIZE_IN_BYTES c)
                            + 2 * unat (sizeof_D3D12_GPU_DESCRIPTOR_HANDLE c)))
                    (unat (D3D12_RAYTRACING_SHADER_RECORD_BYTE_ALIGNMENT c))
       \<and> (\<exists>table. ShaderTable (CreateShaderTable c dev s) = Some table
             \<and> unat (Width table) =
                 align_up (3 * unat (ShaderTableRecordSize (CreateShaderTable c dev s)))
                          (unat (D3D12_RAYTRACING_SHADER_TABLE_BYTE_ALIGNMENT c))
             \<and> CreateCommittedResource (Width table) 1 0 \<in> set (calls (CreateShaderTable c dev s)))"
  using assms
  by (simp add: CreateShaderTable_fields shaderRecordSize_unat shaderTableSize_unat max_def)

theorem CreateShaderTable_stride_and_length_witness:
  "dxrAvailable ((initial_state zero_memory)\<lparr>dxrAvailable := True\<rparr>)
   \<and> \<not> dxrInitialized ((initial_state zero_memory)\<lparr>dxrAvailable := True\<rparr>)
   \<and> 0 < D3D12_RAYTRACING_SHADER_RECORD_BYTE_ALIGNMENT sdk_constants
   \<and> 0 < D3D12_RAYTRACING_SHADER_TABLE_BYTE_ALIGNMENT sdk_constants
   \<and> unat (ShaderTableRecordSize (CreateShaderTable sdk_constants example_device
              ((initial_state zero_memory)\<lparr>dxrAvailable := True\<rparr>))) = align_up (max 32 48) 32
   \<and> align_up (max 32 48) 32 = 64"
  using CreateShaderTable_stride_and_length
          [of "(initial_state zero_memory)\<lparr>dxrAvailable := True\<rparr>" sdk_constants example_device]
  by (simp add: initial_state_def sdk_constants_def align_up_def)

section \<open>Evaluating the model\<close>

lemma reached_simps [simp]: "reached (Inl (f, s)) = s" "reached (Inr s) = s"
  by (simp_all add: reached_def)

lemma FAILED_0 [simp]: "\<not> FAILED 0"
  by (simp add: FAILED_def)

lemma not_FAILED_S_OK [simp]: "\<not> FAILED S_OK"
  by (simp add: FAILED_def S_OK_def)

lemma FAILED_E_FAIL [simp]: "FAILED E_FAIL"
  by (simp add: FAILED_def E_FAIL_def)

lemmas model_defs =
  Graphics_Initialize_def WaitForGPU_def CreateBuffer_def
  FillNextConstantBufferAndGetGPUDescriptorHandle_def ReserveSrvUavDescriptorHeapSlot_def
  ResetAllocatorAndCommandList_def CreateRaytracingRootSignatures_def
  CreateRaytracingPipelineState_def CreateShaderTable_def CreateRaytracingOutputUAV_def
  RayTracing_Initialize_def ResizeOutputUAV_def CreateBLAS_def CreateTLAS_def Raytrace_def
  issue_def write_resource_def Let_def case_prod_beta

lemma Graphics_Initialize_success:
  assumes "\<not> apiInitialized s" "\<not> FAILED (createResult dev)" "\<not> FAILED (swapResult dev)"
  shows "fst (Graphics_Initialize dev s) = S_OK"
    and "cbvSrvDescriptorHeapIncrementSize (snd (Graphics_Initialize dev s))
           = ucast (DescriptorHandleIncrementSize dev)"
    and "cbvDescriptorOffset (snd (Graphics_Initialize dev s)) = 0"
    and "srvDescriptorOffset (snd (Graphics_Initialize dev s)) = MaxConstantBuffers"
    and "cbUploadHeapSizeInBytes (snd (Graphics_Initialize dev s)) = ucast MaxConstantBuffers * 256"
    and "cbUploadHeapOffsetInBytes (snd (Graphics_Initialize dev s)) = 0"
    and "CBVSRVDescriptorHeap (snd (Graphics_Initialize dev s))
           = Some \<lparr>NumDescriptors = MaxConstantBuffers + MaxTextureDescriptors\<rparr>"
    and "CBUploadHeap (snd (Graphics_Initialize dev s))
           = Some \<lparr>rid = next_rid s, Width = ucast MaxConstantBuffers * 256, Height = 1\<rparr>"
  using assms by (simp_all add: model_defs)

lemma Graphics_Initialize_frame:
  "dxrAvailable (snd (Graphics_Initialize dev s)) = dxrAvailable s"
  "dxrInitialized (snd (Graphics_Initialize dev s)) = dxrInitialized s"
  "RaytracingOutputUAV_GPU (snd (Graphics_Initialize dev s)) = RaytracingOutputUAV_GPU s"
  "TLAS (snd (Graphics_Initialize dev s)) = TLAS s"
  "BLAS (snd (Graphics_Initialize dev s)) = BLAS s"
  "ShaderTable (snd (Graphics_Initialize dev s)) = ShaderTable s"
  by (simp_all add: model_defs)

lemma started_example:
  "dxrAvailable (started example_device)"
  "dxrInitialized (started example_device)"
  "ShaderTable (started example_device) = Some \<lparr>rid = 1, Width = 192, Height = 1\<rparr>"
  "ShaderTableRecordSize (started example_device) = 64"
  "srvDescriptorOffset (started example_device) = 1001"
  "RaytracingOutputUAV_GPU (started example_device) = 97536"
  "CBVSRVDescriptorHeap (started example_device) = Some \<lparr>NumDescriptors = 2000\<rparr>"
  "CBUploadHeap (started example_device) = Some \<lparr>rid = 0, Width = 256000, Height = 1\<rparr>"
  "TLAS (started example_device) = None"
  "BLAS (started example_device) = None"
  "next_rid (started example_device) = 3"
  by (simp_all add: started_def graphics_started_def model_defs initial_state_def
       example_device_def sdk_constants_def
       MaxConstantBuffers_def MaxTextureDescriptors_def S_OK_def
       shaderRecordSize_def shaderTableSize_def ALIGN_def)

section \<open>Sizes of the acceleration-structure buffers\<close>

lemma CreateBLAS_buffers:
  assumes "dxrAvailable s"
  shows "BLASScratchBuffer (reached (CreateBLAS c dev mesh s)) =
           Some \<lparr>rid = next_rid s,
                 Width = ALIGN (fst (PrebuildInfo dev BOTTOM_LEVEL))
                           (ucast (D3D12_RAYTRACING_ACCELERATION_STRUCTURE_BYTE_ALIGNMENT c)),
                 Height = 1\<rparr>"
    and "BLAS (reached (CreateBLAS c dev mesh s)) =
           Some \<lparr>rid = Suc (next_rid s),
                 Width = ALIGN (snd (PrebuildInfo dev BOTTOM_LEVEL))
                           (ucast (D3D12_RAYTRACING_ACCELERATION_STRUCTURE_BYTE_ALIGNMENT c)),
                 Height = 1\<rparr>"
  using assms
  by (simp_all add: CreateBLAS_def CreateBuffer_def ReserveSrvUavDescriptorHeapSlot_def
        issue_def write_resource_def Let_def case_prod_beta
      split: option.splits)

lemma CreateTLAS_buffers:
  assumes "dxrAvailable s" "BLAS s = Some blas"
  shows "TLASScratchBuffer (reached (CreateTLAS c ib dev s)) =
           Some \<lparr>rid = Suc (next_rid s),
                 Width = ALIGN (fst (PrebuildInfo dev TOP_LEVEL))
                           (ucast (D3D12_RAYTRACING_ACCELERATION_STRUCTURE_BYTE_ALIGNMENT c)),
                 Height = 1\<rparr>"
    and "TLAS (reached (CreateTLAS c ib dev s)) =
           Some \<lparr>rid = Suc (Suc (next_rid s)),
                 Width = ALIGN (snd (PrebuildInfo dev TOP_LEVEL))
                           (ucast (D3D12_RAYTRACING_ACCELERATION_STRUCTURE_BYTE_ALIGNMENT c)),
                 Height = 1\<rparr>"
  using assms
  by (simp_all add: CreateTLAS_def CreateBuffer_def WaitForGPU_def ResetAllocatorAndCommandList_def
        issue_def write_resource_def Let_def case_prod_beta)

lemma ALIGN_fits:
  assumes "0 < (a :: UINT)" "unat v + unat a \<le> 2 ^ 64"
  shows "unat (ALIGN v (ucast a)) = align_up (unat v) (unat a)"
  using ALIGN_unat [of "ucast a" v] assms by (simp add: word_less_nat_alt)

text \<open>
  C6, as amended.  For all prebuild sizes \<open>s\<close> and \<open>r\<close> for which \<open>s + alignment - 1\<close> and
  \<open>r + alignment - 1\<close> fit in 64 bits, \<open>CreateBLAS\<close> and \<open>CreateTLAS\<close> create a scratch
  buffer of exactly \<open>align(s, alignment)\<close> bytes and a result buffer of exactly
  \<open>align(r, alignment)\<close> bytes.
\<close>

theorem acceleration_structure_buffer_sizes:
  assumes "dxrAvailable s"
    and "0 < D3D12_RAYTRACING_ACCELERATION_STRUCTURE_BYTE_ALIGNMENT c"
    and "\<forall>ty. unat (fst (PrebuildInfo dev ty))
                + unat (D3D12_RAYTRACING_ACCELERATION_STRUCTURE_BYTE_ALIGNMENT c) \<le> 2 ^ 64
              \<and> unat (snd (PrebuildInfo dev ty))
                + unat (D3D12_RAYTRACING_ACCELERATION_STRUCTURE_BYTE_ALIGNMENT c) \<le> 2 ^ 64"
  shows "(\<exists>scratch blas.
            BLASScratchBuffer (reached (CreateBLAS c dev mesh s)) = Some scratch
          \<and> BLAS (reached (CreateBLAS c dev mesh s)) = Some blas
          \<and> unat (Width scratch) =
              align_up (unat (fst (PrebuildInfo dev BOTTOM_LEVEL)))
                       (unat (D3D12_RAYTRACING_ACCELERATION_STRUCTURE_BYTE_ALIGNMENT c))
          \<and> unat (Width blas) =
              align_up (unat (snd (PrebuildInfo dev BOTTOM_LEVEL)))
                       (unat (D3D12_RAYTRACING_ACCELERATION_STRUCTURE_BYTE_ALIGNMENT c)))
       \<and> (BLAS s \<noteq> None \<longrightarrow>
           (\<exists>scratch tlas.
              TLASScratchBuffer (reached (CreateTLAS c ib dev s)) = Some scratch
            \<and> TLAS (reached (CreateTLAS c ib dev s)) = Some tlas
            \<and> unat (Width scratch) =
                align_up (unat (fst (PrebuildInfo dev TOP_LEVEL)))
                         (unat (D3D12_RAYTRACING_ACCELERATION_STRUCTURE_BYTE_ALIGNMENT c))
            \<and> unat (Width tlas) =
                align_up (unat (snd (PrebuildInfo dev TOP_LEVEL)))
                         (unat (D3D12_RAYTRACING_ACCELERATION_STRUCTURE_BYTE_ALIGNMENT c))))"
  using assms by (auto simp: CreateBLAS_buffers CreateTLAS_buffers ALIGN_fits)

lemma started_huge:
  "dxrAvailable (started huge_prebuild_device)"
  "next_rid (started huge_prebuild_device) = 3"
  by (simp_all add: started_def graphics_started_def model_defs initial_state_def
       huge_prebuild_device_def example_device_def sdk_constants_def S_OK_def)

text \<open>
  C6 as stated fails: for the prebuild scratch size \<open>2^64 - 1\<close> the sum in \<open>ALIGN\<close> wraps,
  and the scratch buffer is created with 0 bytes, where rounding up gives \<open>2^64\<close>.
\<close>

theorem acceleration_structure_buffer_sizes_counterexample:
  "BLASScratchBuffer (blas_built huge_prebuild_device) = Some \<lparr>rid = 3, Width = 0, Height = 1\<rparr>
   \<and> fst (PrebuildInfo huge_prebuild_device BOTTOM_LEVEL) = 0xFFFFFFFFFFFFFFFF
   \<and> align_up (unat (fst (PrebuildInfo huge_prebuild_device BOTTOM_LEVEL)))
        (unat (D3D12_RAYTRACING_ACCELERATION_STRUCTURE_BYTE_ALIGNMENT sdk_constants))
       = 18446744073709551616"
proof -
  have "BLASScratchBuffer (blas_built huge_prebuild_device) =
          Some \<lparr>rid = 3,
                Width = ALIGN (fst (PrebuildInfo huge_prebuild_device BOTTOM_LEVEL))
                  (ucast (D3D12_RAYTRACING_ACCELERATION_STRUCTURE_BYTE_ALIGNMENT sdk_constants)),
                Height = 1\<rparr>"
    unfolding blas_built_def
    using CreateBLAS_buffers(1) [OF started_huge(1), of sdk_constants huge_prebuild_device example_mesh]
    by (simp add: started_huge(2))
  then show ?thesis
    by (simp add: huge_prebuild_device_def example_device_def sdk_constants_def ALIGN_def
          align_up_def)
qed

section \<open>The constant-buffer upload ring\<close>

lemma memcpy_outside:
  "(\<And>i. i < n \<Longrightarrow> a \<noteq> dst + of_nat i) \<Longrightarrow> memcpy mem dst src n a = mem a"
  by (induction n) simp_all

lemma of_nat_neq_UINT64:
  assumes "i < n" "n < 2 ^ 64"
  shows "(of_nat i :: UINT64) \<noteq> of_nat n"
proof
  assume "(of_nat i :: UINT64) = of_nat n"
  then have "unat (of_nat i :: UINT64) = unat (of_nat n :: UINT64)" by simp
  then show False using assms by (simp add: unat_of_nat)
qed

lemma memcpy_inside:
  "i < n \<Longrightarrow> n \<le> 2 ^ 64 \<Longrightarrow> memcpy mem dst src n (dst + of_nat i) = src i"
proof (induction n)
  case 0
  then show ?case by simp
next
  case (Suc n)
  show ?case
  proof (cases "i = n")
    case True
    then show ?thesis by simp
  next
    case False
    with Suc.prems have lt: "i < n" and n: "n < 2 ^ 64" by simp_all
    then have "(of_nat i :: UINT64) \<noteq> of_nat n" by (rule of_nat_neq_UINT64)
    then show ?thesis using Suc.IH lt n by simp
  qed
qed

lemma reservationSize_ALIGN: "reservationSize n = ALIGN (ucast n) 256"
  by (simp add: reservationSize_def ALIGN_def add.commute)

lemma reservationSize_unat: "unat (reservationSize n) = align_up (unat n) 256"
proof -
  have "unat (ucast n :: UINT64) + unat (256 :: UINT64) \<le> 2 ^ 64"
    using unat_UINT_less [of n] by simp
  then show ?thesis
    unfolding reservationSize_ALIGN using ALIGN_unat [of 256 "ucast n"] by simp
qed

lemma reservationSize_less: "unat (reservationSize n) < 4294967552"
  using align_up_less [of 256 "unat n"] unat_UINT_less [of n] by (simp add: reservationSize_unat)

lemma reservationSize_mod: "unat (reservationSize n) mod 256 = 0"
  using align_up_dvd [of 256 "unat n"] by (simp add: reservationSize_unat mod_eq_0_iff_dvd)

lemma Fill_result:
  assumes "CBUploadHeap s = Some heap" and "CBVSRVDescriptorHeap s = Some dh"
  shows "\<exists>s'. FillNextConstantBufferAndGetGPUDescriptorHandle dev data n s
               = Inr (cbvSlotHandle (GPUDescriptorHandleForHeapStart dev) s, s')
      \<and> cbUploadHeapOffsetInBytes s' =
          (if uploadOffset n s + reservationSize n \<ge> cbUploadHeapSizeInBytes s then 0
           else uploadOffset n s + reservationSize n)
      \<and> cbUploadHeapSizeInBytes s' = cbUploadHeapSizeInBytes s
      \<and> cbvDescriptorOffset s' =
          (if cbvDescriptorOffset s + 1 \<ge> MaxConstantBuffers then 0 else cbvDescriptorOffset s + 1)
      \<and> memory s' = (memory s)(rid heap := memcpy (memory s (rid heap)) (uploadOffset n s) data (unat n))
      \<and> calls s' = calls s @ [CreateConstantBufferView
                                 (GPUVirtualAddress dev (rid heap) + uploadOffset n s)
                                 (ucast (reservationSize n))
                                 (cbvSlotHandle (CPUDescriptorHandleForHeapStart dev) s)]"
  using assms
  by (simp add: FillNextConstantBufferAndGetGPUDescriptorHandle_def issue_def write_resource_def
        Let_def cbvSlotHandle_def)

lemma word_le_no_wrap:
  fixes a b c :: UINT64
  assumes "unat a + unat b < 2 ^ 64"
  shows "(c \<le> a + b) = (unat c \<le> unat a + unat b)"
proof -
  have "unat (a + b) = unat a + unat b" using assms by (simp add: unat_word_ariths)
  then show ?thesis by (simp add: word_le_nat_alt)
qed

text \<open>
  C2.  \<open>FillNextConstantBufferAndGetGPUDescriptorHandle\<close>, for every data size and every
  current offset, once the two heaps exist: the reservation \<open>r\<close> is the data size rounded up
  to a multiple of 256; the write offset \<open>w\<close> is 0 whenever offset + \<open>r\<close> reaches the
  capacity and the current offset otherwise (the function consults nothing else: no fence and
  no record of what the GPU has consumed); the data bytes are copied to the upload heap from
  \<open>w\<close> on; and the new offset is \<open>w + r\<close>, or 0 when that reaches the capacity.  The sums are
  the program's 64-bit sums; for every offset below \<open>2^63\<close>, hence for every offset the ring
  can hold, the comparison is the one on unbounded numbers.
\<close>

theorem FillNextConstantBuffer_reserve:
  assumes "CBUploadHeap s = Some heap" and "CBVSRVDescriptorHeap s = Some dh"
  shows "\<exists>r w g s'.
           FillNextConstantBufferAndGetGPUDescriptorHandle dev data dataSizeInBytes s = Inr (g, s')
         \<and> unat r = align_up (unat dataSizeInBytes) 256
         \<and> w = (if cbUploadHeapOffsetInBytes s + r \<ge> cbUploadHeapSizeInBytes s then 0
                 else cbUploadHeapOffsetInBytes s)
         \<and> (unat (cbUploadHeapOffsetInBytes s) < 2 ^ 63 \<longrightarrow>
              (cbUploadHeapOffsetInBytes s + r \<ge> cbUploadHeapSizeInBytes s
                 \<longleftrightarrow> unat (cbUploadHeapOffsetInBytes s) + unat r \<ge> unat (cbUploadHeapSizeInBytes s)))
         \<and> (\<forall>i < unat dataSizeInBytes. memory s' (rid heap) (w + of_nat i) = data i)
         \<and> cbUploadHeapOffsetInBytes s' = (if w + r \<ge> cbUploadHeapSizeInBytes s then 0 else w + r)"
proof -
  from Fill_result [OF assms, of dev data dataSizeInBytes] obtain s' where
    f: "FillNextConstantBufferAndGetGPUDescriptorHandle dev data dataSizeInBytes s
          = Inr (cbvSlotHandle (GPUDescriptorHandleForHeapStart dev) s, s')"
    and o: "cbUploadHeapOffsetInBytes s' =
          (if uploadOffset dataSizeInBytes s + reservationSize dataSizeInBytes \<ge> cbUploadHeapSizeInBytes s
           then 0 else uploadOffset dataSizeInBytes s + reservationSize dataSizeInBytes)"
    and m: "memory s' = (memory s)(rid heap := memcpy (memory s (rid heap))
              (uploadOffset dataSizeInBytes s) data (unat dataSizeInBytes))"
    by blast
  let ?r = "reservationSize dataSizeInBytes"
  let ?w = "uploadOffset dataSizeInBytes s"
  have n: "unat dataSizeInBytes \<le> 2 ^ 64" using unat_UINT_less [of dataSizeInBytes] by simp
  have copied: "\<forall>i < unat dataSizeInBytes. memory s' (rid heap) (?w + of_nat i) = data i"
    using n by (simp add: m memcpy_inside)
  have nowrap: "unat (cbUploadHeapOffsetInBytes s) < 2 ^ 63 \<longrightarrow>
      (cbUploadHeapOffsetInBytes s + ?r \<ge> cbUploadHeapSizeInBytes s
         \<longleftrightarrow> unat (cbUploadHeapOffsetInBytes s) + unat ?r \<ge> unat (cbUploadHeapSizeInBytes s))"
  proof
    assume "unat (cbUploadHeapOffsetInBytes s) < 2 ^ 63"
    then have "unat (cbUploadHeapOffsetInBytes s) + unat ?r < 2 ^ 64"
      using reservationSize_less [of dataSizeInBytes] by simp
    then show "cbUploadHeapOffsetInBytes s + ?r \<ge> cbUploadHeapSizeInBytes s
         \<longleftrightarrow> unat (cbUploadHeapOffsetInBytes s) + unat ?r \<ge> unat (cbUploadHeapSizeInBytes s)"
      by (rule word_le_no_wrap)
  qed
  show ?thesis
    apply (rule exI [of _ ?r])
    apply (rule exI [of _ ?w])
    apply (rule exI [of _ "cbvSlotHandle (GPUDescriptorHandleForHeapStart dev) s"])
    apply (rule exI [of _ s'])
    using f o copied nowrap by (simp add: reservationSize_unat uploadOffset_def)
qed

section \<open>The allocator invariant\<close>

lemma capacity_value: "(ucast MaxConstantBuffers * 256 :: UINT64) = 256000"
  by (simp add: MaxConstantBuffers_def)

lemma Graphics_Initialize_S_OK:
  assumes "fst (Graphics_Initialize dev s) = S_OK"
  shows "\<not> apiInitialized s \<and> \<not> FAILED (createResult dev) \<and> \<not> FAILED (swapResult dev)"
proof -
  have "E_FAIL \<noteq> S_OK" by (simp add: E_FAIL_def S_OK_def)
  moreover have "FAILED (createResult dev) \<Longrightarrow> createResult dev \<noteq> S_OK" by auto
  moreover have "FAILED (swapResult dev) \<Longrightarrow> swapResult dev \<noteq> S_OK" by auto
  ultimately show ?thesis
    using assms by (auto simp: Graphics_Initialize_def split: if_splits)
qed

lemma Graphics_Initialize_inv:
  assumes "fst (Graphics_Initialize dev s) = S_OK"
  shows "allocator_inv (snd (Graphics_Initialize dev s))"
proof -
  from Graphics_Initialize_S_OK [OF assms]
  have a: "\<not> apiInitialized s" "\<not> FAILED (createResult dev)" "\<not> FAILED (swapResult dev)"
    by simp_all
  show ?thesis
    unfolding allocator_inv_def
    by (simp add: Graphics_Initialize_success [OF a] capacity_value) (simp add: MaxConstantBuffers_def)
qed

lemma offset_step_inv:
  fixes off r :: UINT64
  assumes m: "unat off mod 256 = 0" and lt: "off < 256000"
    and rm: "unat r mod 256 = 0" and rl: "unat r < 4294967552"
  defines "w \<equiv> (if off + r \<ge> 256000 then 0 else off)"
  defines "off' \<equiv> (if w + r \<ge> 256000 then 0 else w + r)"
  shows "unat off' mod 256 = 0 \<and> off' < 256000"
proof -
  have wl: "unat w < 256000" using lt by (simp add: w_def word_less_nat_alt)
  have wm: "unat w mod 256 = 0" using m by (simp add: w_def)
  have s: "unat (w + r) = unat w + unat r"
    using wl rl by (simp add: unat_word_ariths)
  show ?thesis
  proof (cases "w + r \<ge> 256000")
    case True
    then show ?thesis by (simp add: off'_def)
  next
    case False
    then have "off' = w + r" by (simp add: off'_def)
    moreover have "w + r < 256000" using False by simp
    moreover have "unat (w + r) mod 256 = 0"
      unfolding s using wm rm by presburger
    ultimately show ?thesis by simp
  qed
qed

lemma cursor_step_inv:
  fixes c :: UINT
  assumes "c < 1000"
  shows "(if c + 1 \<ge> 1000 then 0 else c + 1) < 1000"
  by (simp add: not_le)

lemma Fill_preserves_inv:
  assumes inv: "allocator_inv s"
    and f: "FillNextConstantBufferAndGetGPUDescriptorHandle dev data n s = Inr (g, s')"
  shows "allocator_inv s'"
    and "\<exists>va sz. last (calls s') =
           CreateConstantBufferView va sz
             (CPUDescriptorHandleForHeapStart dev
                + ucast (cbvDescriptorOffset s) * cbvSrvDescriptorHeapIncrementSize s)"
    and "cbvDescriptorOffset s < MaxConstantBuffers"
proof -
  from f obtain heap dh where h: "CBUploadHeap s = Some heap" "CBVSRVDescriptorHeap s = Some dh"
    by (auto simp: FillNextConstantBufferAndGetGPUDescriptorHandle_def Let_def write_resource_def
          split: option.splits if_splits)
  from Fill_result [OF h, of dev data n] f have
    o: "cbUploadHeapOffsetInBytes s' =
          (if uploadOffset n s + reservationSize n \<ge> cbUploadHeapSizeInBytes s then 0
           else uploadOffset n s + reservationSize n)"
    and cap: "cbUploadHeapSizeInBytes s' = cbUploadHeapSizeInBytes s"
    and c: "cbvDescriptorOffset s' =
          (if cbvDescriptorOffset s + 1 \<ge> MaxConstantBuffers then 0 else cbvDescriptorOffset s + 1)"
    and l: "calls s' = calls s @ [CreateConstantBufferView
                                 (GPUVirtualAddress dev (rid heap) + uploadOffset n s)
                                 (ucast (reservationSize n))
                                 (cbvSlotHandle (CPUDescriptorHandleForHeapStart dev) s)]"
    by auto
  from inv have cs: "cbUploadHeapSizeInBytes s = 256000"
    and om: "unat (cbUploadHeapOffsetInBytes s) mod 256 = 0"
    and ol: "cbUploadHeapOffsetInBytes s < 256000"
    and cl: "cbvDescriptorOffset s < 1000"
    by (auto simp: allocator_inv_def capacity_value MaxConstantBuffers_def)
  have "unat (cbUploadHeapOffsetInBytes s') mod 256 = 0 \<and> cbUploadHeapOffsetInBytes s' < 256000"
    unfolding o uploadOffset_def cs
    by (rule offset_step_inv [OF om ol reservationSize_mod reservationSize_less])
  moreover have "cbvDescriptorOffset s' < 1000"
    unfolding c MaxConstantBuffers_def using cl by (rule cursor_step_inv)
  ultimately show "allocator_inv s'"
    by (simp add: allocator_inv_def cap cs capacity_value MaxConstantBuffers_def)
  show "\<exists>va sz. last (calls s') =
           CreateConstantBufferView va sz
             (CPUDescriptorHandleForHeapStart dev
                + ucast (cbvDescriptorOffset s) * cbvSrvDescriptorHeapIncrementSize s)"
    by (simp add: l cbvSlotHandle_def)
  show "cbvDescriptorOffset s < MaxConstantBuffers"
    using cl by (simp add: MaxConstantBuffers_def)
qed

text \<open>
  C10.  The allocator invariant is established by a successful \<open>Graphics::Initialize\<close>, which
  also places the SRV/UAV region at slot \<open>MaxConstantBuffers\<close>, and is preserved by every
  returning call of \<open>FillNextConstantBufferAndGetGPUDescriptorHandle\<close>; the constant-buffer
  view of that call is created in the slot of the cursor before the call, which is below
  \<open>MaxConstantBuffers\<close>.
\<close>

theorem allocator_invariant:
  "(fst (Graphics_Initialize dev s0) = S_OK \<longrightarrow>
      allocator_inv (snd (Graphics_Initialize dev s0))
    \<and> srvDescriptorOffset (snd (Graphics_Initialize dev s0)) = MaxConstantBuffers)
   \<and> (allocator_inv s
        \<and> FillNextConstantBufferAndGetGPUDescriptorHandle dev data n s = Inr (g, s') \<longrightarrow>
      allocator_inv s'
    \<and> cbvDescriptorOffset s < MaxConstantBuffers
    \<and> (\<exists>va sz. last (calls s') =
           CreateConstantBufferView va sz
             (CPUDescriptorHandleForHeapStart dev
                + ucast (cbvDescriptorOffset s) * cbvSrvDescriptorHeapIncrementSize s)))"
proof (intro conjI impI)
  assume a: "fst (Graphics_Initialize dev s0) = S_OK"
  then show "allocator_inv (snd (Graphics_Initialize dev s0))" by (rule Graphics_Initialize_inv)
  from Graphics_Initialize_S_OK [OF a]
  show "srvDescriptorOffset (snd (Graphics_Initialize dev s0)) = MaxConstantBuffers"
    by (simp add: Graphics_Initialize_success)
next
  assume a: "allocator_inv s
        \<and> FillNextConstantBufferAndGetGPUDescriptorHandle dev data n s = Inr (g, s')"
  then show "allocator_inv s'" using Fill_preserves_inv(1) by blast
  from a show "cbvDescriptorOffset s < MaxConstantBuffers" using Fill_preserves_inv(3) by blast
  from a show "\<exists>va sz. last (calls s') =
           CreateConstantBufferView va sz
             (CPUDescriptorHandleForHeapStart dev
                + ucast (cbvDescriptorOffset s) * cbvSrvDescriptorHeapIncrementSize s)"
    using Fill_preserves_inv(2) by blast
qed

section \<open>Initialize: the unsupported paths\<close>

lemma Initialize_unsupported:
  assumes "FAILED (supportResult dev) \<or> RaytracingTier dev = D3D12_RAYTRACING_TIER_NOT_SUPPORTED
           \<or> FAILED (dxrDeviceResult dev) \<or> FAILED (dxrCommandListResult dev)"
  shows "\<exists>hr. RayTracing_Initialize c dev w h s
              = Inr (hr, issue [CheckFeatureSupport, QueryInterface, QueryInterface] s)"
  using assms by (auto simp: RayTracing_Initialize_def Let_def)

lemma Initialize_unsupported_tier:
  assumes "\<not> FAILED (supportResult dev)"
    and "RaytracingTier dev = D3D12_RAYTRACING_TIER_NOT_SUPPORTED"
  shows "RayTracing_Initialize c dev w h s
           = Inr (supportResult dev, issue [CheckFeatureSupport, QueryInterface, QueryInterface] s)"
  using assms by (simp add: RayTracing_Initialize_def Let_def)

lemma issue_frame [simp]:
  "dxrAvailable (issue cs s) = dxrAvailable s"
  "dxrInitialized (issue cs s) = dxrInitialized s"
  "calls (issue cs s) = calls s @ cs"
  by (simp_all add: issue_def)

text \<open>
  C3.  On a device whose feature query succeeds and reports the ray tracing tier as not
  supported, \<open>RayTracing::Initialize\<close> leaves both flags false and runs no set-up step, but
  the status it returns is the query's own \<open>S_OK\<close>, which is not a failure.
\<close>

theorem Initialize_unsupported_tier_returns_S_OK:
  "RayTracing_Initialize sdk_constants unsupported_device 1280 720
      (graphics_started unsupported_device)
    = Inr (S_OK, started unsupported_device)
   \<and> \<not> FAILED S_OK
   \<and> RaytracingTier unsupported_device = D3D12_RAYTRACING_TIER_NOT_SUPPORTED
   \<and> \<not> dxrAvailable (started unsupported_device)
   \<and> \<not> dxrInitialized (started unsupported_device)"
  by (simp add: started_def graphics_started_def RayTracing_Initialize_def Let_def
        unsupported_device_def example_device_def S_OK_def Graphics_Initialize_frame
        initial_state_def)

section \<open>The disabled state\<close>

lemma Raytrace_disabled:
  "\<not> dxrInitialized s \<or> \<not> dxrAvailable s \<Longrightarrow> Raytrace c dev d bb w h s = Inr s"
  by (auto simp: Raytrace_def)

lemma ResizeOutputUAV_disabled:
  "\<not> dxrInitialized s \<or> \<not> dxrAvailable s \<Longrightarrow> ResizeOutputUAV dev w h s = Inr s"
  by (auto simp: ResizeOutputUAV_def)

lemma run_calls_disabled:
  "\<not> dxrInitialized s \<or> \<not> dxrAvailable s \<Longrightarrow> run_calls c dev cs s = Inr s"
proof (induction cs)
  case Nil
  then show ?case by simp
next
  case (Cons x cs)
  then show ?case
    by (cases x) (simp_all add: Raytrace_disabled ResizeOutputUAV_disabled)
qed

text \<open>
  C8.  When \<open>RayTracing::Initialize\<close> has found ray tracing unsupported (a failed or
  negative feature query, or a failed interface query), both flags stay false, and from then
  on every call of \<open>Raytrace\<close> and of \<open>ResizeOutputUAV\<close>, in any number and order, returns
  the state it was given: no device, command-list or queue call is added.
\<close>

theorem disabled_entry_points_issue_nothing:
  assumes "FAILED (supportResult dev) \<or> RaytracingTier dev = D3D12_RAYTRACING_TIER_NOT_SUPPORTED
           \<or> FAILED (dxrDeviceResult dev) \<or> FAILED (dxrCommandListResult dev)"
    and "\<not> dxrAvailable s0" and "\<not> dxrInitialized s0"
  shows "\<exists>hr s1. RayTracing_Initialize c dev outputWidth outputHeight s0 = Inr (hr, s1)
           \<and> \<not> dxrAvailable s1 \<and> \<not> dxrInitialized s1
           \<and> Raytrace c dev sceneData bb w h s1 = Inr s1
           \<and> ResizeOutputUAV dev w h s1 = Inr s1
           \<and> (\<forall>cs. run_calls c dev cs s1 = Inr s1
                  \<and> calls (reached (run_calls c dev cs s1)) = calls s1)"
proof -
  from Initialize_unsupported [OF assms(1), of c outputWidth outputHeight s0] obtain hr where
    i: "RayTracing_Initialize c dev outputWidth outputHeight s0
          = Inr (hr, issue [CheckFeatureSupport, QueryInterface, QueryInterface] s0)" ..
  let ?s1 = "issue [CheckFeatureSupport, QueryInterface, QueryInterface] s0"
  have d: "\<not> dxrInitialized ?s1 \<or> \<not> dxrAvailable ?s1" using assms(2) by simp
  show ?thesis
    apply (rule exI [of _ hr])
    apply (rule exI [of _ ?s1])
    using i d assms(2,3)
    by (simp add: Raytrace_disabled ResizeOutputUAV_disabled run_calls_disabled)
qed

section \<open>The guard of Raytrace\<close>

lemma Raytrace_enabled_calls:
  assumes "dxrInitialized s" "dxrAvailable s"
  shows "\<exists>rest. calls (reached (Raytrace c dev d bb w h s)) = calls s @ ResourceBarrier 2 # rest"
  using assms
  by (auto simp: Raytrace_def FillNextConstantBufferAndGetGPUDescriptorHandle_def Let_def
        issue_def write_resource_def split: option.splits)

lemma Raytrace_enabled_not_noop:
  assumes "dxrInitialized s" "dxrAvailable s"
  shows "Raytrace c dev d bb w h s \<noteq> Inr s"
proof
  assume "Raytrace c dev d bb w h s = Inr s"
  then have "calls (reached (Raytrace c dev d bb w h s)) = calls s" by simp
  with Raytrace_enabled_calls [OF assms, of c dev d bb w h] show False by auto
qed

text \<open>
  C4, as amended.  \<open>Raytrace\<close> is a no-op, returning the state unchanged, whenever one of the
  flags \<open>dxrInitialized\<close> and \<open>dxrAvailable\<close> is false.  When both are set it is never a
  no-op: it records commands, the two-barrier transition first, whatever the TLAS handle is.
\<close>

theorem Raytrace_guard:
  "(\<not> dxrInitialized s \<or> \<not> dxrAvailable s \<longrightarrow> Raytrace c dev sceneData bb w h s = Inr s)
   \<and> (dxrInitialized s \<and> dxrAvailable s \<longrightarrow>
        Raytrace c dev sceneData bb w h s \<noteq> Inr s
      \<and> (\<exists>rest. calls (reached (Raytrace c dev sceneData bb w h s))
                   = calls s @ ResourceBarrier 2 # rest))"
proof (intro conjI impI)
  assume "\<not> dxrInitialized s \<or> \<not> dxrAvailable s"
  then show "Raytrace c dev sceneData bb w h s = Inr s" by (rule Raytrace_disabled)
next
  assume a: "dxrInitialized s \<and> dxrAvailable s"
  then show "Raytrace c dev sceneData bb w h s \<noteq> Inr s"
    by (simp add: Raytrace_enabled_not_noop)
  from a show "\<exists>rest. calls (reached (Raytrace c dev sceneData bb w h s))
                   = calls s @ ResourceBarrier 2 # rest"
    by (simp add: Raytrace_enabled_calls)
qed

text \<open>
  C4 as stated fails: after a successful \<open>Initialize\<close> and before any TLAS is built, the TLAS
  handle is null, and \<open>Raytrace\<close> still records six calls.
\<close>

theorem Raytrace_null_TLAS_counterexample:
  "dxrInitialized (started example_device)
   \<and> dxrAvailable (started example_device)
   \<and> TLAS (started example_device) = None
   \<and> Raytrace sdk_constants example_device zero_scene None 1280 720 (started example_device)
       \<noteq> Inr (started example_device)
   \<and> calls (reached (Raytrace sdk_constants example_device zero_scene None 1280 720
                       (started example_device)))
       = calls (started example_device)
         @ [ResourceBarrier 2, CreateConstantBufferView 1048576 256 4096, SetDescriptorHeaps,
            SetPipelineState1, SetComputeRootSignature, SetComputeRootDescriptorTable 0 97536]"
proof -
  have "calls (reached (Raytrace sdk_constants example_device zero_scene None 1280 720
                       (started example_device)))
       = calls (started example_device)
         @ [ResourceBarrier 2, CreateConstantBufferView 1048576 256 4096, SetDescriptorHeaps,
            SetPipelineState1, SetComputeRootSignature, SetComputeRootDescriptorTable 0 97536]"
    by (simp add: started_def graphics_started_def model_defs initial_state_def
       example_device_def sdk_constants_def MaxConstantBuffers_def MaxTextureDescriptors_def S_OK_def
       shaderRecordSize_def shaderTableSize_def ALIGN_def reservationSize_def uploadOffset_def
       cbvSlotHandle_def)
  then show ?thesis
    using Raytrace_enabled_not_noop [of "started example_device"]
    by (simp add: started_example)
qed

section \<open>The output descriptor slot\<close>







section \<open>The order of the shader table's records\<close>

lemma unat_of_nat_small: "i < 2 ^ 64 \<Longrightarrow> unat (of_nat i :: UINT64) = i"
  by (simp add: unat_of_nat)

lemma unat_plus_of_nat:
  fixes R :: UINT64
  assumes "unat R + j < 2 ^ 64"
  shows "unat (R + of_nat j) = unat R + j"
proof -
  have j: "unat (of_nat j :: UINT64) = j" using assms by (simp add: unat_of_nat)
  have "unat (R + of_nat j) = (unat R + unat (of_nat j :: UINT64)) mod 2 ^ 64"
    by (simp only: unat_word_ariths(1)) simp
  then show ?thesis using assms j by simp
qed

lemma record_addresses_apart:
  fixes R :: UINT64
  assumes i: "i < n" and j: "j < n" and n: "n \<le> unat R" and R: "unat R < 2 ^ 40"
  shows "of_nat i \<noteq> R + of_nat j"
    and "R + of_nat i \<noteq> R + R + of_nat j"
    and "of_nat i \<noteq> R + R + of_nat j"
proof -
  have ui: "unat (of_nat i :: UINT64) = i" using i n R by (simp add: unat_of_nat)
  have uj: "unat (R + of_nat j) = unat R + j"
    using j n R by (intro unat_plus_of_nat) simp
  show 1: "of_nat i \<noteq> R + of_nat j"
  proof
    assume "of_nat i = R + of_nat j"
    then have "unat (of_nat i :: UINT64) = unat (R + of_nat j)" by simp
    then show False using ui uj i n by simp
  qed
  show "R + of_nat i \<noteq> R + R + of_nat j"
    using 1 by (simp add: add.assoc)
  have rr: "unat (R + R) = unat R + unat R" using R by (simp add: unat_word_ariths)
  have "unat (R + R) + j < 2 ^ 64" using rr R j n by simp
  then have urr: "unat (R + R + of_nat j) = unat R + unat R + j"
    using unat_plus_of_nat [of "R + R" j] rr by simp
  show "of_nat i \<noteq> R + R + of_nat j"
  proof
    assume "of_nat i = R + R + of_nat j"
    then have "unat (of_nat i :: UINT64) = unat (R + R + of_nat j)" by simp
    then show False using ui urr i n by simp
  qed
qed

lemma CreateShaderTable_memory:
  assumes "dxrAvailable s" "\<not> dxrInitialized s"
  shows "memory (CreateShaderTable c dev s) (next_rid s) =
           memcpy (memcpy (memcpy (memory s (next_rid s)) 0 (ShaderIdentifier dev ''RayGen'')
                             (unat (D3D12_SHADER_IDENTIFIER_SIZE_IN_BYTES c)))
                      (shaderRecordSize c) (ShaderIdentifier dev ''Miss'')
                      (unat (D3D12_SHADER_IDENTIFIER_SIZE_IN_BYTES c)))
             (shaderRecordSize c + shaderRecordSize c) (ShaderIdentifier dev ''HitGroup'')
             (unat (D3D12_SHADER_IDENTIFIER_SIZE_IN_BYTES c))"
  using assms
  by (simp add: CreateShaderTable_def CreateBuffer_def issue_def write_resource_def Let_def)

lemma CreateShaderTable_records:
  assumes a: "dxrAvailable s" "\<not> dxrInitialized s"
    and r: "0 < D3D12_RAYTRACING_SHADER_RECORD_BYTE_ALIGNMENT c"
    and i: "i < unat (D3D12_SHADER_IDENTIFIER_SIZE_IN_BYTES c)"
  shows "memory (CreateShaderTable c dev s) (next_rid s) (of_nat i) = ShaderIdentifier dev ''RayGen'' i"
    and "memory (CreateShaderTable c dev s) (next_rid s) (shaderRecordSize c + of_nat i)
           = ShaderIdentifier dev ''Miss'' i"
    and "memory (CreateShaderTable c dev s) (next_rid s) (shaderRecordSize c * 2 + of_nat i)
           = ShaderIdentifier dev ''HitGroup'' i"
proof -
  let ?n = "unat (D3D12_SHADER_IDENTIFIER_SIZE_IN_BYTES c)"
  let ?R = "shaderRecordSize c"
  have n: "?n \<le> unat ?R" using shaderRecordSize_ge [OF r] by simp
  have R: "unat ?R < 2 ^ 40" using shaderRecordSize_less [OF r] by simp
  have n64: "?n \<le> 2 ^ 64" using unat_UINT_less [of "D3D12_SHADER_IDENTIFIER_SIZE_IN_BYTES c"] by simp
  note sep = record_addresses_apart [OF i _ n R]
  have two: "?R * 2 = ?R + ?R" by simp
  show "memory (CreateShaderTable c dev s) (next_rid s) (of_nat i) = ShaderIdentifier dev ''RayGen'' i"
    unfolding CreateShaderTable_memory [OF a]
    using sep(1) sep(3) memcpy_inside [OF i n64, of _ 0]
    by (simp add: memcpy_outside)
  show "memory (CreateShaderTable c dev s) (next_rid s) (?R + of_nat i) = ShaderIdentifier dev ''Miss'' i"
    unfolding CreateShaderTable_memory [OF a]
    using sep(2) memcpy_inside [OF i n64]
    by (simp add: memcpy_outside)
  show "memory (CreateShaderTable c dev s) (next_rid s) (?R * 2 + of_nat i)
           = ShaderIdentifier dev ''HitGroup'' i"
    unfolding CreateShaderTable_memory [OF a] two
    using memcpy_inside [OF i n64] by simp
qed

lemma Raytrace_ready:
  assumes "dxrInitialized s" "dxrAvailable s"
    and "CBUploadHeap s = Some heap" "CBVSRVDescriptorHeap s = Some dh"
    and "TLAS s = Some tlas" "ShaderTable s = Some table"
  shows "\<exists>s' cbv. Raytrace c dev sceneData bb w h s = Inr s'
      \<and> calls s' = calls s @
           [ResourceBarrier 2, cbv,
            SetDescriptorHeaps, SetPipelineState1, SetComputeRootSignature,
            SetComputeRootDescriptorTable 0 (RaytracingOutputUAV_GPU s),
            SetComputeRootShaderResourceView 1 (GPUVirtualAddress dev (rid tlas)),
            SetComputeRootDescriptorTable 2 (cbvSlotHandle (GPUDescriptorHandleForHeapStart dev) s),
            DispatchRays (dispatchDesc dev table w h s),
            ResourceBarrier 1,
            CopyResource (map_option rid bb) (map_option rid (RaytracingOutput s)),
            ResourceBarrier 1, Close, ExecuteCommandLists]
      \<and> \<not> is_DispatchRays cbv"
  using assms
  by (simp add: Raytrace_def FillNextConstantBufferAndGetGPUDescriptorHandle_def issue_def
        write_resource_def Let_def cbvSlotHandle_def dispatchDesc_def)

text \<open>
  C5.  \<open>CreateShaderTable\<close> writes the ray-generation identifier at byte offset 0 of the
  table, the miss identifier at one record stride and the hit-group identifier at two record
  strides; \<open>Raytrace\<close> issues exactly one dispatch, whose three table addresses are the table's
  GPU address plus 0, 1 and 2 times \<open>ShaderTableRecordSize\<close>, and whose sizes and strides are
  \<open>ShaderTableRecordSize\<close>.
\<close>

theorem shader_table_record_order:
  assumes "dxrAvailable sI" and "\<not> dxrInitialized sI"
    and "0 < D3D12_RAYTRACING_SHADER_RECORD_BYTE_ALIGNMENT c"
    and "dxrInitialized sR" and "dxrAvailable sR"
    and "CBUploadHeap sR = Some heap" and "CBVSRVDescriptorHeap sR = Some dh"
    and "TLAS sR = Some tlas" and "ShaderTable sR = Some table"
  shows "(\<exists>t. ShaderTable (CreateShaderTable c dev sI) = Some t
          \<and> (\<forall>i < unat (D3D12_SHADER_IDENTIFIER_SIZE_IN_BYTES c).
                memory (CreateShaderTable c dev sI) (rid t)
                  (0 * ShaderTableRecordSize (CreateShaderTable c dev sI) + of_nat i)
                  = ShaderIdentifier dev ''RayGen'' i
              \<and> memory (CreateShaderTable c dev sI) (rid t)
                  (1 * ShaderTableRecordSize (CreateShaderTable c dev sI) + of_nat i)
                  = ShaderIdentifier dev ''Miss'' i
              \<and> memory (CreateShaderTable c dev sI) (rid t)
                  (2 * ShaderTableRecordSize (CreateShaderTable c dev sI) + of_nat i)
                  = ShaderIdentifier dev ''HitGroup'' i))
       \<and> (\<exists>s'. Raytrace c dev sceneData bb w h sR = Inr s'
          \<and> filter is_DispatchRays (drop (length (calls sR)) (calls s')) =
              [DispatchRays
                 \<lparr>RayGenerationShaderRecord_StartAddress =
                    GPUVirtualAddress dev (rid table) + 0 * ShaderTableRecordSize sR,
                  RayGenerationShaderRecord_SizeInBytes = ShaderTableRecordSize sR,
                  MissShaderTable_StartAddress =
                    GPUVirtualAddress dev (rid table) + 1 * ShaderTableRecordSize sR,
                  MissShaderTable_SizeInBytes = ShaderTableRecordSize sR,
                  MissShaderTable_StrideInBytes = ShaderTableRecordSize sR,
                  HitGroupTable_StartAddress =
                    GPUVirtualAddress dev (rid table) + 2 * ShaderTableRecordSize sR,
                  HitGroupTable_SizeInBytes = ShaderTableRecordSize sR,
                  HitGroupTable_StrideInBytes = ShaderTableRecordSize sR,
                  Dispatch_Width = w, Dispatch_Height = h, Dispatch_Depth = 1\<rparr>])"
proof
  have "\<forall>i < unat (D3D12_SHADER_IDENTIFIER_SIZE_IN_BYTES c).
          memory (CreateShaderTable c dev sI) (next_rid sI) (of_nat i) = ShaderIdentifier dev ''RayGen'' i
        \<and> memory (CreateShaderTable c dev sI) (next_rid sI) (shaderRecordSize c + of_nat i)
            = ShaderIdentifier dev ''Miss'' i
        \<and> memory (CreateShaderTable c dev sI) (next_rid sI) (shaderRecordSize c * 2 + of_nat i)
            = ShaderIdentifier dev ''HitGroup'' i"
    using CreateShaderTable_records [OF assms(1-3)] by blast
  then show "\<exists>t. ShaderTable (CreateShaderTable c dev sI) = Some t
          \<and> (\<forall>i < unat (D3D12_SHADER_IDENTIFIER_SIZE_IN_BYTES c).
                memory (CreateShaderTable c dev sI) (rid t)
                  (0 * ShaderTableRecordSize (CreateShaderTable c dev sI) + of_nat i)
                  = ShaderIdentifier dev ''RayGen'' i
              \<and> memory (CreateShaderTable c dev sI) (rid t)
                  (1 * ShaderTableRecordSize (CreateShaderTable c dev sI) + of_nat i)
                  = ShaderIdentifier dev ''Miss'' i
              \<and> memory (CreateShaderTable c dev sI) (rid t)
                  (2 * ShaderTableRecordSize (CreateShaderTable c dev sI) + of_nat i)
                  = ShaderIdentifier dev ''HitGroup'' i)"
    by (simp add: CreateShaderTable_fields [OF assms(1,2)] mult.commute)
next
  from Raytrace_ready [OF assms(4-9), of c dev sceneData bb w h] obtain s' cbv where
    r: "Raytrace c dev sceneData bb w h sR = Inr s'"
      "calls s' = calls sR @
           [ResourceBarrier 2, cbv,
            SetDescriptorHeaps, SetPipelineState1, SetComputeRootSignature,
            SetComputeRootDescriptorTable 0 (RaytracingOutputUAV_GPU sR),
            SetComputeRootShaderResourceView 1 (GPUVirtualAddress dev (rid tlas)),
            SetComputeRootDescriptorTable 2 (cbvSlotHandle (GPUDescriptorHandleForHeapStart dev) sR),
            DispatchRays (dispatchDesc dev table w h sR),
            ResourceBarrier 1,
            CopyResource (map_option rid bb) (map_option rid (RaytracingOutput sR)),
            ResourceBarrier 1, Close, ExecuteCommandLists]"
      "\<not> is_DispatchRays cbv"
    by blast
  show "\<exists>s'. Raytrace c dev sceneData bb w h sR = Inr s'
          \<and> filter is_DispatchRays (drop (length (calls sR)) (calls s')) =
              [DispatchRays
                 \<lparr>RayGenerationShaderRecord_StartAddress =
                    GPUVirtualAddress dev (rid table) + 0 * ShaderTableRecordSize sR,
                  RayGenerationShaderRecord_SizeInBytes = ShaderTableRecordSize sR,
                  MissShaderTable_StartAddress =
                    GPUVirtualAddress dev (rid table) + 1 * ShaderTableRecordSize sR,
                  MissShaderTable_SizeInBytes = ShaderTableRecordSize sR,
                  MissShaderTable_StrideInBytes = ShaderTableRecordSize sR,
                  HitGroupTable_StartAddress =
                    GPUVirtualAddress dev (rid table) + 2 * ShaderTableRecordSize sR,
                  HitGroupTable_SizeInBytes = ShaderTableRecordSize sR,
                  HitGroupTable_StrideInBytes = ShaderTableRecordSize sR,
                  Dispatch_Width = w, Dispatch_Height = h, Dispatch_Depth = 1\<rparr>]"
    apply (rule exI [of _ s'])
    using r by (simp add: dispatchDesc_def mult.commute)
qed

section \<open>Building the acceleration structures\<close>

lemma CreateBLAS_ready:
  assumes "dxrAvailable s" and "CBVSRVDescriptorHeap s = Some dh" and "ShaderTable s = Some table"
  shows "\<exists>s'. CreateBLAS c dev mesh s = Inr s'
      \<and> dxrAvailable s'
      \<and> BLAS s' = Some \<lparr>rid = Suc (next_rid s),
                          Width = ALIGN (snd (PrebuildInfo dev BOTTOM_LEVEL))
                            (ucast (D3D12_RAYTRACING_ACCELERATION_STRUCTURE_BYTE_ALIGNMENT c)),
                          Height = 1\<rparr>
      \<and> indexBufferSRV s' = GPUDescriptorHandleForHeapStart dev
            + ucast (srvDescriptorOffset s) * cbvSrvDescriptorHeapIncrementSize s
      \<and> vertexBufferSRV s' = GPUDescriptorHandleForHeapStart dev
            + ucast (srvDescriptorOffset s + 1) * cbvSrvDescriptorHeapIncrementSize s
      \<and> srvDescriptorOffset s' = srvDescriptorOffset s + 1 + 1
      \<and> next_rid s' = Suc (Suc (next_rid s))
      \<and> ShaderTable s' = Some table
      \<and> ShaderTableRecordSize s' = ShaderTableRecordSize s
      \<and> memory s' = (memory s)(rid table :=
            memcpy (memory s (rid table))
              (ShaderTableRecordSize s + ShaderTableRecordSize s
                 + (ucast (D3D12_SHADER_IDENTIFIER_SIZE_IN_BYTES c)
                    + ucast (sizeof_D3D12_GPU_DESCRIPTOR_HANDLE c)))
              (object_bytes (GPUDescriptorHandleForHeapStart dev
                 + ucast (srvDescriptorOffset s) * cbvSrvDescriptorHeapIncrementSize s))
              (unat (sizeof_D3D12_GPU_DESCRIPTOR_HANDLE c)))"
  using assms
  by (simp add: CreateBLAS_def CreateBuffer_def ReserveSrvUavDescriptorHeapSlot_def
        issue_def write_resource_def Let_def case_prod_beta)

lemma CreateTLAS_ready:
  assumes "dxrAvailable s" and "BLAS s = Some blas"
  shows "\<exists>s'. CreateTLAS c ib dev s = Inr s'
      \<and> TLAS s' = Some \<lparr>rid = Suc (Suc (next_rid s)),
                          Width = ALIGN (snd (PrebuildInfo dev TOP_LEVEL))
                            (ucast (D3D12_RAYTRACING_ACCELERATION_STRUCTURE_BYTE_ALIGNMENT c)),
                          Height = 1\<rparr>
      \<and> TLASInstanceDescBuffer s' =
            Some \<lparr>rid = next_rid s,
                  Width = ucast (sizeof_D3D12_RAYTRACING_INSTANCE_DESC c), Height = 1\<rparr>
      \<and> TLASScratchBuffer s' =
            Some \<lparr>rid = Suc (next_rid s),
                  Width = ALIGN (fst (PrebuildInfo dev TOP_LEVEL))
                            (ucast (D3D12_RAYTRACING_ACCELERATION_STRUCTURE_BYTE_ALIGNMENT c)),
                  Height = 1\<rparr>
      \<and> indexBufferSRV s' = indexBufferSRV s
      \<and> vertexBufferSRV s' = vertexBufferSRV s
      \<and> ShaderTable s' = ShaderTable s
      \<and> memory s' = (memory s)(next_rid s :=
            memcpy (memory s (next_rid s)) 0
              (ib \<lparr>Transform = [[1, 0, 0, 0], [0, 1, 0, 0], [0, 0, 1, 0]],
                   InstanceID = 0,
                   InstanceMask = 0xFF,
                   InstanceContributionToHitGroupIndex = 0,
                   Flags = D3D12_RAYTRACING_INSTANCE_FLAG_NONE c,
                   AccelerationStructure = GPUVirtualAddress dev (rid blas)\<rparr>)
              (unat (sizeof_D3D12_RAYTRACING_INSTANCE_DESC c)))
      \<and> BuildRaytracingAccelerationStructure TOP_LEVEL 1
            (GPUVirtualAddress dev (Suc (next_rid s)))
            (GPUVirtualAddress dev (Suc (Suc (next_rid s)))) \<in> set (calls s')"
  using assms
  by (simp add: CreateTLAS_def CreateBuffer_def WaitForGPU_def ResetAllocatorAndCommandList_def
        issue_def write_resource_def Let_def case_prod_beta)

text \<open>
  C7, as amended.  From a state with ray tracing available, the descriptor heap and the shader
  table present, \<open>CreateBLAS\<close> and then \<open>CreateTLAS\<close> return; the TLAS handle is non-null and
  was built from one instance whose transform is the identity; the index-buffer and
  vertex-buffer SRVs are in adjacent descriptor slots, the index buffer first; and the handle
  of the index-buffer SRV is stored in the hit-group record in the second handle-sized slot
  after the shader identifier (byte offset \<open>idSize + h\<close> of record 2), the first slot being
  the placeholder of the constant-buffer view.
\<close>

theorem hit_group_record_holds_index_SRV:
  assumes "dxrAvailable s" and "CBVSRVDescriptorHeap s = Some dh"
    and "ShaderTable s = Some table" and "rid table < next_rid s"
  shows "\<exists>s1 s2 tlas scratch instances.
           CreateBLAS c dev mesh s = Inr s1
         \<and> CreateTLAS c ib dev s1 = Inr s2
         \<and> TLAS s2 = Some tlas
         \<and> TLASScratchBuffer s2 = Some scratch
         \<and> BuildRaytracingAccelerationStructure TOP_LEVEL 1
              (GPUVirtualAddress dev (rid scratch)) (GPUVirtualAddress dev (rid tlas))
              \<in> set (calls s2)
         \<and> TLASInstanceDescBuffer s2 = Some instances
         \<and> (\<forall>i < unat (sizeof_D3D12_RAYTRACING_INSTANCE_DESC c).
               memory s2 (rid instances) (of_nat i) =
                 ib \<lparr>Transform = [[1, 0, 0, 0], [0, 1, 0, 0], [0, 0, 1, 0]],
                      InstanceID = 0,
                      InstanceMask = 0xFF,
                      InstanceContributionToHitGroupIndex = 0,
                      Flags = D3D12_RAYTRACING_INSTANCE_FLAG_NONE c,
                      AccelerationStructure = GPUVirtualAddress dev (Suc (next_rid s))\<rparr> i)
         \<and> indexBufferSRV s2 = GPUDescriptorHandleForHeapStart dev
              + ucast (srvDescriptorOffset s) * cbvSrvDescriptorHeapIncrementSize s
         \<and> vertexBufferSRV s2 = GPUDescriptorHandleForHeapStart dev
              + ucast (srvDescriptorOffset s + 1) * cbvSrvDescriptorHeapIncrementSize s
         \<and> (\<forall>i < unat (sizeof_D3D12_GPU_DESCRIPTOR_HANDLE c).
               memory s2 (rid table)
                 (2 * ShaderTableRecordSize s
                    + ucast (D3D12_SHADER_IDENTIFIER_SIZE_IN_BYTES c)
                    + 1 * ucast (sizeof_D3D12_GPU_DESCRIPTOR_HANDLE c)
                    + of_nat i)
                 = object_bytes (indexBufferSRV s2) i)"
proof -
  let ?ix = "GPUDescriptorHandleForHeapStart dev
              + ucast (srvDescriptorOffset s) * cbvSrvDescriptorHeapIncrementSize s"
  let ?p = "ShaderTableRecordSize s + ShaderTableRecordSize s
                 + (ucast (D3D12_SHADER_IDENTIFIER_SIZE_IN_BYTES c)
                    + ucast (sizeof_D3D12_GPU_DESCRIPTOR_HANDLE c))"
  let ?inst = "\<lparr>Transform = [[1, 0, 0, 0], [0, 1, 0, 0], [0, 0, 1, 0]],
                      InstanceID = 0,
                      InstanceMask = 0xFF,
                      InstanceContributionToHitGroupIndex = 0,
                      Flags = D3D12_RAYTRACING_INSTANCE_FLAG_NONE c,
                      AccelerationStructure = GPUVirtualAddress dev (Suc (next_rid s))\<rparr>"
  from CreateBLAS_ready [OF assms(1-3), of c dev mesh] obtain s1 where
    s1: "CreateBLAS c dev mesh s = Inr s1" "dxrAvailable s1"
      "BLAS s1 = Some \<lparr>rid = Suc (next_rid s),
                          Width = ALIGN (snd (PrebuildInfo dev BOTTOM_LEVEL))
                            (ucast (D3D12_RAYTRACING_ACCELERATION_STRUCTURE_BYTE_ALIGNMENT c)),
                          Height = 1\<rparr>"
      "indexBufferSRV s1 = ?ix"
      "vertexBufferSRV s1 = GPUDescriptorHandleForHeapStart dev
            + ucast (srvDescriptorOffset s + 1) * cbvSrvDescriptorHeapIncrementSize s"
      "next_rid s1 = Suc (Suc (next_rid s))"
      "memory s1 = (memory s)(rid table :=
            memcpy (memory s (rid table)) ?p (object_bytes ?ix)
              (unat (sizeof_D3D12_GPU_DESCRIPTOR_HANDLE c)))"
    by blast
  from CreateTLAS_ready [OF s1(2) s1(3), of c ib dev] obtain s2 where
    s2: "CreateTLAS c ib dev s1 = Inr s2"
      "TLAS s2 = Some \<lparr>rid = Suc (Suc (next_rid s1)),
                          Width = ALIGN (snd (PrebuildInfo dev TOP_LEVEL))
                            (ucast (D3D12_RAYTRACING_ACCELERATION_STRUCTURE_BYTE_ALIGNMENT c)),
                          Height = 1\<rparr>"
      "TLASInstanceDescBuffer s2 =
            Some \<lparr>rid = next_rid s1,
                  Width = ucast (sizeof_D3D12_RAYTRACING_INSTANCE_DESC c), Height = 1\<rparr>"
      "TLASScratchBuffer s2 =
            Some \<lparr>rid = Suc (next_rid s1),
                  Width = ALIGN (fst (PrebuildInfo dev TOP_LEVEL))
                            (ucast (D3D12_RAYTRACING_ACCELERATION_STRUCTURE_BYTE_ALIGNMENT c)),
                  Height = 1\<rparr>"
      "indexBufferSRV s2 = indexBufferSRV s1"
      "vertexBufferSRV s2 = vertexBufferSRV s1"
      "memory s2 = (memory s1)(next_rid s1 :=
            memcpy (memory s1 (next_rid s1)) 0 (ib ?inst)
              (unat (sizeof_D3D12_RAYTRACING_INSTANCE_DESC c)))"
      "BuildRaytracingAccelerationStructure TOP_LEVEL 1
            (GPUVirtualAddress dev (Suc (next_rid s1)))
            (GPUVirtualAddress dev (Suc (Suc (next_rid s1)))) \<in> set (calls s2)"
    by (auto simp: s1(3))
  have ne: "rid table \<noteq> next_rid s1" using assms(4) s1(6) by simp
  have h64: "unat (sizeof_D3D12_GPU_DESCRIPTOR_HANDLE c) \<le> 2 ^ 64"
    using unat_UINT_less [of "sizeof_D3D12_GPU_DESCRIPTOR_HANDLE c"] by simp
  have i64: "unat (sizeof_D3D12_RAYTRACING_INSTANCE_DESC c) \<le> 2 ^ 64"
    using unat_UINT_less [of "sizeof_D3D12_RAYTRACING_INSTANCE_DESC c"] by simp
  have p: "2 * ShaderTableRecordSize s + ucast (D3D12_SHADER_IDENTIFIER_SIZE_IN_BYTES c)
             + 1 * ucast (sizeof_D3D12_GPU_DESCRIPTOR_HANDLE c) = ?p"
    by simp
  have table: "\<forall>i < unat (sizeof_D3D12_GPU_DESCRIPTOR_HANDLE c).
      memory s2 (rid table) (?p + of_nat i) = object_bytes ?ix i"
    using ne h64 by (simp add: s2(7) s1(7) memcpy_inside)
  have inst: "\<forall>i < unat (sizeof_D3D12_RAYTRACING_INSTANCE_DESC c).
      memory s2 (next_rid s1) (of_nat i) = ib ?inst i"
    using i64 memcpy_inside [of _ "unat (sizeof_D3D12_RAYTRACING_INSTANCE_DESC c)" _ 0 "ib ?inst"]
    by (simp add: s2(7))
  show ?thesis
    apply (rule exI [of _ s1])
    apply (rule exI [of _ s2])
    apply (rule exI [of _ "\<lparr>rid = Suc (Suc (next_rid s1)),
                          Width = ALIGN (snd (PrebuildInfo dev TOP_LEVEL))
                            (ucast (D3D12_RAYTRACING_ACCELERATION_STRUCTURE_BYTE_ALIGNMENT c)),
                          Height = 1\<rparr>"])
    apply (rule exI [of _ "\<lparr>rid = Suc (next_rid s1),
                  Width = ALIGN (fst (PrebuildInfo dev TOP_LEVEL))
                            (ucast (D3D12_RAYTRACING_ACCELERATION_STRUCTURE_BYTE_ALIGNMENT c)),
                  Height = 1\<rparr>"])
    apply (rule exI [of _ "\<lparr>rid = next_rid s1,
                  Width = ucast (sizeof_D3D12_RAYTRACING_INSTANCE_DESC c), Height = 1\<rparr>"])
    unfolding p
    using s1(1,4,5) s2(1,2,3,4,5,6,8) table inst
    by simp
qed

section \<open>The statements at concrete inputs\<close>

lemma graphics_started_example:
  "fst (Graphics_Initialize example_device (initial_state zero_memory)) = S_OK"
  "CBUploadHeap (graphics_started example_device) = Some \<lparr>rid = 0, Width = 256000, Height = 1\<rparr>"
  "CBVSRVDescriptorHeap (graphics_started example_device) = Some \<lparr>NumDescriptors = 2000\<rparr>"
  "\<not> dxrInitialized (graphics_started example_device)"
  "\<not> dxrAvailable (graphics_started example_device)"
  "RaytracingOutputUAV_GPU (graphics_started example_device) = 0"
  "srvDescriptorOffset (graphics_started example_device) = 1000"
  "cbvSrvDescriptorHeapIncrementSize (graphics_started example_device) = 32"
  by (simp_all add: graphics_started_def model_defs initial_state_def example_device_def
        MaxConstantBuffers_def MaxTextureDescriptors_def)

lemma graphics_started_unsupported:
  "\<not> dxrInitialized (graphics_started unsupported_device)"
  "\<not> dxrAvailable (graphics_started unsupported_device)"
  by (simp_all add: graphics_started_def Graphics_Initialize_frame initial_state_def)

lemma started_example_more:
  "cbvSrvDescriptorHeapIncrementSize (started example_device) = 32"
  "cbUploadHeapOffsetInBytes (started example_device) = 0"
  "cbUploadHeapSizeInBytes (started example_device) = 256000"
  by (simp_all add: started_def graphics_started_def model_defs initial_state_def
       example_device_def sdk_constants_def MaxConstantBuffers_def MaxTextureDescriptors_def
       S_OK_def)

lemma blas_built_example:
  "dxrAvailable (blas_built example_device)"
  "BLAS (blas_built example_device) = Some \<lparr>rid = 4, Width = 5120, Height = 1\<rparr>"
proof -
  from CreateBLAS_ready [OF started_example(1) started_example(7) started_example(3),
      of sdk_constants example_device example_mesh]
  obtain s' where s': "CreateBLAS sdk_constants example_device example_mesh (started example_device) = Inr s'"
    "dxrAvailable s'"
    "BLAS s' = Some \<lparr>rid = Suc (next_rid (started example_device)),
                      Width = ALIGN (snd (PrebuildInfo example_device BOTTOM_LEVEL))
                        (ucast (D3D12_RAYTRACING_ACCELERATION_STRUCTURE_BYTE_ALIGNMENT sdk_constants)),
                      Height = 1\<rparr>"
    by blast
  have b: "blas_built example_device = s'" by (simp add: blas_built_def s'(1))
  show "dxrAvailable (blas_built example_device)" using s'(2) b by simp
  show "BLAS (blas_built example_device) = Some \<lparr>rid = 4, Width = 5120, Height = 1\<rparr>"
  proof -
    have "ALIGN (snd (PrebuildInfo example_device BOTTOM_LEVEL))
            (ucast (D3D12_RAYTRACING_ACCELERATION_STRUCTURE_BYTE_ALIGNMENT sdk_constants))
          = 5120"
      by (simp add: example_device_def sdk_constants_def ALIGN_def)
    then show ?thesis using s'(3) b by (simp add: started_example)
  qed
qed

theorem FillNextConstantBuffer_reserve_witness:
  "CBUploadHeap (started example_device) = Some \<lparr>rid = 0, Width = 256000, Height = 1\<rparr>
   \<and> CBVSRVDescriptorHeap (started example_device) = Some \<lparr>NumDescriptors = 2000\<rparr>
   \<and> (\<exists>g s'. FillNextConstantBufferAndGetGPUDescriptorHandle example_device zero_scene 76
                 (started example_device) = Inr (g, s')
          \<and> memory s' 0 5 = zero_scene 5
          \<and> cbUploadHeapOffsetInBytes s' = 256)"
proof -
  have h1: "CBUploadHeap (started example_device) = Some \<lparr>rid = 0, Width = 256000, Height = 1\<rparr>"
    by (simp add: started_example)
  have h2: "CBVSRVDescriptorHeap (started example_device) = Some \<lparr>NumDescriptors = 2000\<rparr>"
    by (simp add: started_example)
  from FillNextConstantBuffer_reserve [OF h1 h2, of example_device zero_scene 76]
  obtain r w g s' where
    f: "FillNextConstantBufferAndGetGPUDescriptorHandle example_device zero_scene 76
          (started example_device) = Inr (g, s')"
    and r: "unat r = align_up (unat (76 :: UINT)) 256"
    and w: "w = (if cbUploadHeapOffsetInBytes (started example_device) + r
                      \<ge> cbUploadHeapSizeInBytes (started example_device) then 0
                 else cbUploadHeapOffsetInBytes (started example_device))"
    and m: "\<forall>i < unat (76 :: UINT).
              memory s' (rid \<lparr>rid = 0, Width = 256000, Height = 1\<rparr>) (w + of_nat i) = zero_scene i"
    and o: "cbUploadHeapOffsetInBytes s'
              = (if w + r \<ge> cbUploadHeapSizeInBytes (started example_device) then 0 else w + r)"
    by blast
  have "unat r = 256" using r by (simp add: align_up_def)
  then have r256: "r = 256" by (simp add: word_unat_eq_iff)
  have w0: "w = 0" using w by (simp add: started_example_more)
  have "(5 :: nat) < unat (76 :: UINT)" by simp
  with m have "memory s' (rid \<lparr>rid = 0, Width = 256000, Height = 1\<rparr>) (w + of_nat 5) = zero_scene 5"
    by blast
  then have m5: "memory s' 0 5 = zero_scene 5" using w0 by simp
  have o256: "cbUploadHeapOffsetInBytes s' = 256"
    using o by (simp add: w0 r256 started_example_more)
  show ?thesis using h1 h2 f m5 o256 by blast
qed

theorem allocator_invariant_witness:
  "fst (Graphics_Initialize example_device (initial_state zero_memory)) = S_OK
   \<and> allocator_inv (graphics_started example_device)
   \<and> srvDescriptorOffset (graphics_started example_device) = MaxConstantBuffers
   \<and> (\<exists>g s'. FillNextConstantBufferAndGetGPUDescriptorHandle example_device zero_scene 76
                 (graphics_started example_device) = Inr (g, s')
          \<and> allocator_inv s'
          \<and> cbvDescriptorOffset (graphics_started example_device) < MaxConstantBuffers)"
proof -
  note a1 = graphics_started_example(1)
  from Fill_result [OF graphics_started_example(2) graphics_started_example(3),
      of example_device zero_scene 76]
  obtain g s' where f: "FillNextConstantBufferAndGetGPUDescriptorHandle example_device zero_scene 76
                 (graphics_started example_device) = Inr (g, s')"
    by blast
  note t = allocator_invariant [where dev = example_device and ?s0.0 = "initial_state zero_memory"
      and s = "graphics_started example_device" and data = zero_scene and n = 76
      and g = g and s' = s']
  from t a1 have b1: "allocator_inv (graphics_started example_device)"
    and b2: "srvDescriptorOffset (graphics_started example_device) = MaxConstantBuffers"
    by (simp_all add: graphics_started_def)
  from t b1 f have b3: "allocator_inv s'"
    and b4: "cbvDescriptorOffset (graphics_started example_device) < MaxConstantBuffers"
    by blast+
  show ?thesis using a1 b1 b2 f b3 b4 by blast
qed

theorem disabled_entry_points_issue_nothing_witness:
  "RaytracingTier unsupported_device = D3D12_RAYTRACING_TIER_NOT_SUPPORTED
   \<and> \<not> dxrAvailable (graphics_started unsupported_device)
   \<and> \<not> dxrInitialized (graphics_started unsupported_device)
   \<and> (\<exists>hr s1. RayTracing_Initialize sdk_constants unsupported_device 1280 720
                   (graphics_started unsupported_device) = Inr (hr, s1)
          \<and> Raytrace sdk_constants unsupported_device zero_scene None 1280 720 s1 = Inr s1
          \<and> ResizeOutputUAV unsupported_device 1280 720 s1 = Inr s1
          \<and> run_calls sdk_constants unsupported_device
                [Call_ResizeOutputUAV 800 600, Call_Raytrace zero_scene None 800 600] s1 = Inr s1)"
proof -
  have t: "RaytracingTier unsupported_device = D3D12_RAYTRACING_TIER_NOT_SUPPORTED"
    by (simp add: unsupported_device_def)
  then have d: "FAILED (supportResult unsupported_device)
      \<or> RaytracingTier unsupported_device = D3D12_RAYTRACING_TIER_NOT_SUPPORTED
      \<or> FAILED (dxrDeviceResult unsupported_device)
      \<or> FAILED (dxrCommandListResult unsupported_device)"
    by simp
  note a = graphics_started_unsupported(2) and b = graphics_started_unsupported(1)
  from disabled_entry_points_issue_nothing [OF d a b,
      of sdk_constants 1280 720 zero_scene None 1280 720]
  obtain hr s1 where
    "RayTracing_Initialize sdk_constants unsupported_device 1280 720
        (graphics_started unsupported_device) = Inr (hr, s1)"
    "Raytrace sdk_constants unsupported_device zero_scene None 1280 720 s1 = Inr s1"
    "ResizeOutputUAV unsupported_device 1280 720 s1 = Inr s1"
    "\<forall>cs. run_calls sdk_constants unsupported_device cs s1 = Inr s1
           \<and> calls (reached (run_calls sdk_constants unsupported_device cs s1)) = calls s1"
    by blast
  then show ?thesis using t a b by blast
qed

theorem Raytrace_guard_witness:
  "\<not> dxrInitialized (initial_state zero_memory)
   \<and> Raytrace sdk_constants example_device zero_scene None 1280 720 (initial_state zero_memory)
       = Inr (initial_state zero_memory)
   \<and> dxrInitialized (started example_device)
   \<and> dxrAvailable (started example_device)
   \<and> Raytrace sdk_constants example_device zero_scene None 1280 720 (started example_device)
       \<noteq> Inr (started example_device)"
proof -
  have a: "\<not> dxrInitialized (initial_state zero_memory)" by (simp add: initial_state_def)
  note b = started_example(2) and c = started_example(1)
  from Raytrace_guard [of "initial_state zero_memory" sdk_constants example_device zero_scene
      None 1280 720] a
  have 1: "Raytrace sdk_constants example_device zero_scene None 1280 720 (initial_state zero_memory)
       = Inr (initial_state zero_memory)"
    by blast
  from Raytrace_guard [of "started example_device" sdk_constants example_device zero_scene
      None 1280 720] b c
  have 2: "Raytrace sdk_constants example_device zero_scene None 1280 720 (started example_device)
       \<noteq> Inr (started example_device)"
    by blast
  show ?thesis using a 1 b c 2 by blast
qed

theorem acceleration_structure_buffer_sizes_witness:
  "dxrAvailable (blas_built example_device)
   \<and> 0 < D3D12_RAYTRACING_ACCELERATION_STRUCTURE_BYTE_ALIGNMENT sdk_constants
   \<and> BLAS (blas_built example_device) \<noteq> None
   \<and> (\<exists>scratch tlas.
         TLASScratchBuffer (reached (CreateTLAS sdk_constants zero_instance_bytes example_device
                                       (blas_built example_device))) = Some scratch
       \<and> TLAS (reached (CreateTLAS sdk_constants zero_instance_bytes example_device
                          (blas_built example_device))) = Some tlas
       \<and> unat (Width scratch) = align_up 1000 256
       \<and> unat (Width tlas) = align_up 5000 256)"
proof -
  note a = blas_built_example(1)
  have p: "0 < D3D12_RAYTRACING_ACCELERATION_STRUCTURE_BYTE_ALIGNMENT sdk_constants"
    by (simp add: sdk_constants_def)
  have b: "\<forall>ty. unat (fst (PrebuildInfo example_device ty))
                + unat (D3D12_RAYTRACING_ACCELERATION_STRUCTURE_BYTE_ALIGNMENT sdk_constants) \<le> 2 ^ 64
              \<and> unat (snd (PrebuildInfo example_device ty))
                + unat (D3D12_RAYTRACING_ACCELERATION_STRUCTURE_BYTE_ALIGNMENT sdk_constants) \<le> 2 ^ 64"
    by (simp add: example_device_def sdk_constants_def)
  have n: "BLAS (blas_built example_device) \<noteq> None" by (simp add: blas_built_example(2))
  from acceleration_structure_buffer_sizes [OF a p b, of example_mesh zero_instance_bytes] n
  have "\<exists>scratch tlas.
         TLASScratchBuffer (reached (CreateTLAS sdk_constants zero_instance_bytes example_device
                                       (blas_built example_device))) = Some scratch
       \<and> TLAS (reached (CreateTLAS sdk_constants zero_instance_bytes example_device
                          (blas_built example_device))) = Some tlas
       \<and> unat (Width scratch) =
           align_up (unat (fst (PrebuildInfo example_device TOP_LEVEL)))
             (unat (D3D12_RAYTRACING_ACCELERATION_STRUCTURE_BYTE_ALIGNMENT sdk_constants))
       \<and> unat (Width tlas) =
           align_up (unat (snd (PrebuildInfo example_device TOP_LEVEL)))
             (unat (D3D12_RAYTRACING_ACCELERATION_STRUCTURE_BYTE_ALIGNMENT sdk_constants))"
    by blast
  then have "\<exists>scratch tlas.
         TLASScratchBuffer (reached (CreateTLAS sdk_constants zero_instance_bytes example_device
                                       (blas_built example_device))) = Some scratch
       \<and> TLAS (reached (CreateTLAS sdk_constants zero_instance_bytes example_device
                          (blas_built example_device))) = Some tlas
       \<and> unat (Width scratch) = align_up 1000 256
       \<and> unat (Width tlas) = align_up 5000 256"
    by (simp add: example_device_def sdk_constants_def)
  then show ?thesis using a p n by blast
qed

lemma memcpy_apply:
  "n \<le> 2 ^ 64 \<Longrightarrow>
     memcpy mem dst src n a = (if unat (a - dst) < n then src (unat (a - dst)) else mem a)"
proof (induction n)
  case 0
  then show ?case by simp
next
  case (Suc n)
  then have n: "n < 2 ^ 64" by simp
  show ?case
  proof (cases "a = dst + of_nat n")
    case True
    then have "a - dst = of_nat n" by simp
    then have "unat (a - dst) = n" using n by (simp add: unat_of_nat)
    then show ?thesis using True by simp
  next
    case False
    have "unat (a - dst) \<noteq> n"
    proof
      assume "unat (a - dst) = n"
      then have "of_nat (unat (a - dst)) = (of_nat n :: UINT64)" by simp
      then have "a - dst = of_nat n" by simp
      then have "a = dst + of_nat n" by (simp add: algebra_simps)
      with False show False by simp
    qed
    then have "unat (a - dst) < Suc n \<longleftrightarrow> unat (a - dst) < n" by auto
    then show ?thesis using False Suc.IH n by simp
  qed
qed

lemma read_bytes_8:
  "read_bytes mem p 8 =
     [mem p, mem (p + 1), mem (p + 2), mem (p + 3), mem (p + 4), mem (p + 5), mem (p + 6), mem (p + 7)]"
  by (simp add: eval_nat_numeral)

lemma bytes_of_8:
  "bytes_of v 8 =
     [object_bytes v 0, object_bytes v 1, object_bytes v 2, object_bytes v 3,
      object_bytes v 4, object_bytes v 5, object_bytes v 6, object_bytes v 7]"
  by (simp add: eval_nat_numeral)

lemma started_table_memory:
  "memory (started example_device) 1 =
     memcpy (memcpy (memcpy (zero_memory 1) 0 (ShaderIdentifier example_device ''RayGen'') 32)
                       64 (ShaderIdentifier example_device ''Miss'') 32)
               128 (ShaderIdentifier example_device ''HitGroup'') 32"
  by (simp add: started_def graphics_started_def model_defs initial_state_def
       example_device_def sdk_constants_def MaxConstantBuffers_def
       MaxTextureDescriptors_def S_OK_def shaderRecordSize_def shaderTableSize_def ALIGN_def)


lemma CreateBLAS_frame:
  assumes "dxrAvailable s" and "CBVSRVDescriptorHeap s = Some dh" and "ShaderTable s = Some table"
  shows "dxrInitialized (reached (CreateBLAS c dev mesh s)) = dxrInitialized s"
    and "dxrAvailable (reached (CreateBLAS c dev mesh s)) = dxrAvailable s"
    and "CBUploadHeap (reached (CreateBLAS c dev mesh s)) = CBUploadHeap s"
    and "CBVSRVDescriptorHeap (reached (CreateBLAS c dev mesh s)) = CBVSRVDescriptorHeap s"
    and "ShaderTableRecordSize (reached (CreateBLAS c dev mesh s)) = ShaderTableRecordSize s"
  using assms
  by (simp_all add: CreateBLAS_def CreateBuffer_def ReserveSrvUavDescriptorHeapSlot_def
        issue_def write_resource_def Let_def case_prod_beta)

lemma CreateTLAS_frame:
  assumes "dxrAvailable s" and "BLAS s = Some blas"
  shows "dxrInitialized (reached (CreateTLAS c ib dev s)) = dxrInitialized s"
    and "dxrAvailable (reached (CreateTLAS c ib dev s)) = dxrAvailable s"
    and "CBUploadHeap (reached (CreateTLAS c ib dev s)) = CBUploadHeap s"
    and "CBVSRVDescriptorHeap (reached (CreateTLAS c ib dev s)) = CBVSRVDescriptorHeap s"
    and "ShaderTableRecordSize (reached (CreateTLAS c ib dev s)) = ShaderTableRecordSize s"
  using assms
  by (simp_all add: CreateTLAS_def CreateBuffer_def WaitForGPU_def ResetAllocatorAndCommandList_def
        issue_def write_resource_def Let_def case_prod_beta)

lemma scene_built_frame:
  "dxrInitialized (scene_built example_device)"
  "dxrAvailable (scene_built example_device)"
  "CBUploadHeap (scene_built example_device) = Some \<lparr>rid = 0, Width = 256000, Height = 1\<rparr>"
  "CBVSRVDescriptorHeap (scene_built example_device) = Some \<lparr>NumDescriptors = 2000\<rparr>"
  "ShaderTableRecordSize (scene_built example_device) = 64"
  using CreateTLAS_frame [OF blas_built_example, of sdk_constants zero_instance_bytes example_device]
    CreateBLAS_frame [OF started_example(1) started_example(7) started_example(3),
      of sdk_constants example_device example_mesh]
    started_example
  by (simp_all add: scene_built_def blas_built_def)

lemma scene_built_example:
  "TLAS (scene_built example_device) = Some \<lparr>rid = 7, Width = 5120, Height = 1\<rparr>"
  "ShaderTable (scene_built example_device) = Some \<lparr>rid = 1, Width = 192, Height = 1\<rparr>"
  "indexBufferSRV (scene_built example_device) = 97568"
  "vertexBufferSRV (scene_built example_device) = 97600"
  "memory (scene_built example_device) 1 =
     memcpy (memory (started example_device) 1) 168 (object_bytes 97568) 8"
proof -
  let ?s = "started example_device"
  from CreateBLAS_ready [OF started_example(1) started_example(7) started_example(3),
      of sdk_constants example_device example_mesh]
  obtain s1 where s1:
    "CreateBLAS sdk_constants example_device example_mesh ?s = Inr s1"
    "dxrAvailable s1"
    "BLAS s1 = Some \<lparr>rid = Suc (next_rid ?s),
                      Width = ALIGN (snd (PrebuildInfo example_device BOTTOM_LEVEL))
                        (ucast (D3D12_RAYTRACING_ACCELERATION_STRUCTURE_BYTE_ALIGNMENT sdk_constants)),
                      Height = 1\<rparr>"
    "indexBufferSRV s1 = GPUDescriptorHandleForHeapStart example_device
            + ucast (srvDescriptorOffset ?s) * cbvSrvDescriptorHeapIncrementSize ?s"
    "vertexBufferSRV s1 = GPUDescriptorHandleForHeapStart example_device
            + ucast (srvDescriptorOffset ?s + 1) * cbvSrvDescriptorHeapIncrementSize ?s"
    "next_rid s1 = Suc (Suc (next_rid ?s))"
    "ShaderTable s1 = Some \<lparr>rid = 1, Width = 192, Height = 1\<rparr>"
    "memory s1 = (memory ?s)(rid \<lparr>rid = 1, Width = 192, Height = 1\<rparr> :=
            memcpy (memory ?s (rid \<lparr>rid = 1, Width = 192, Height = 1\<rparr>))
              (ShaderTableRecordSize ?s + ShaderTableRecordSize ?s
                 + (ucast (D3D12_SHADER_IDENTIFIER_SIZE_IN_BYTES sdk_constants)
                    + ucast (sizeof_D3D12_GPU_DESCRIPTOR_HANDLE sdk_constants)))
              (object_bytes (GPUDescriptorHandleForHeapStart example_device
                 + ucast (srvDescriptorOffset ?s) * cbvSrvDescriptorHeapIncrementSize ?s))
              (unat (sizeof_D3D12_GPU_DESCRIPTOR_HANDLE sdk_constants)))"
    by blast
  have b: "blas_built example_device = s1" by (simp add: blas_built_def s1(1))
  from CreateTLAS_ready [OF s1(2) s1(3), of sdk_constants zero_instance_bytes example_device]
  obtain s2 where s2:
    "CreateTLAS sdk_constants zero_instance_bytes example_device s1 = Inr s2"
    "TLAS s2 = Some \<lparr>rid = Suc (Suc (next_rid s1)),
                          Width = ALIGN (snd (PrebuildInfo example_device TOP_LEVEL))
                            (ucast (D3D12_RAYTRACING_ACCELERATION_STRUCTURE_BYTE_ALIGNMENT sdk_constants)),
                          Height = 1\<rparr>"
    "indexBufferSRV s2 = indexBufferSRV s1"
    "vertexBufferSRV s2 = vertexBufferSRV s1"
    "ShaderTable s2 = ShaderTable s1"
    "memory s2 = (memory s1)(next_rid s1 :=
            memcpy (memory s1 (next_rid s1)) 0
              (zero_instance_bytes \<lparr>Transform = [[1, 0, 0, 0], [0, 1, 0, 0], [0, 0, 1, 0]],
                   InstanceID = 0,
                   InstanceMask = 0xFF,
                   InstanceContributionToHitGroupIndex = 0,
                   Flags = D3D12_RAYTRACING_INSTANCE_FLAG_NONE sdk_constants,
                   AccelerationStructure = GPUVirtualAddress example_device
                     (rid \<lparr>rid = Suc (next_rid ?s),
                      Width = ALIGN (snd (PrebuildInfo example_device BOTTOM_LEVEL))
                        (ucast (D3D12_RAYTRACING_ACCELERATION_STRUCTURE_BYTE_ALIGNMENT sdk_constants)),
                      Height = 1\<rparr>)\<rparr>)
              (unat (sizeof_D3D12_RAYTRACING_INSTANCE_DESC sdk_constants)))"
    by blast
  have c: "scene_built example_device = s2" by (simp add: scene_built_def b s2(1))
  have al: "ALIGN (snd (PrebuildInfo example_device TOP_LEVEL))
            (ucast (D3D12_RAYTRACING_ACCELERATION_STRUCTURE_BYTE_ALIGNMENT sdk_constants)) = 5120"
    by (simp add: example_device_def sdk_constants_def ALIGN_def)
  have g: "GPUDescriptorHandleForHeapStart example_device = 65536"
    by (simp add: example_device_def)
  have k: "D3D12_SHADER_IDENTIFIER_SIZE_IN_BYTES sdk_constants = 32"
    "sizeof_D3D12_GPU_DESCRIPTOR_HANDLE sdk_constants = 8"
    by (simp_all add: sdk_constants_def)
  show "TLAS (scene_built example_device) = Some \<lparr>rid = 7, Width = 5120, Height = 1\<rparr>"
    by (simp add: c s2(2) s1(6) started_example(11) al)
  show "ShaderTable (scene_built example_device) = Some \<lparr>rid = 1, Width = 192, Height = 1\<rparr>"
    by (simp add: c s2(5) s1(7))
  show "indexBufferSRV (scene_built example_device) = 97568"
    by (simp add: c s2(3) s1(4) g started_example(5) started_example_more(1))
  show "vertexBufferSRV (scene_built example_device) = 97600"
    by (simp add: c s2(4) s1(5) g started_example(5) started_example_more(1))
  show "memory (scene_built example_device) 1 =
     memcpy (memory (started example_device) 1) 168 (object_bytes 97568) 8"
    by (simp add: c s2(6) s1(6) s1(8) g k started_example(4) started_example(5) started_example(11)
          started_example_more(1))
qed


text \<open>
  C7 as stated fails: with the SDK's sizes (identifier 32 bytes, handle 8 bytes, stride 64),
  after \<open>CreateBLAS\<close> and \<open>CreateTLAS\<close> the first handle-sized slot of the hit-group record
  (bytes 160 to 167 of the table) is still zero, and the handle of the index-buffer SRV is in
  the second slot (bytes 168 to 175).
\<close>

theorem hit_group_first_slot_counterexample:
  "TLAS (scene_built example_device) = Some \<lparr>rid = 7, Width = 5120, Height = 1\<rparr>
   \<and> ShaderTable (scene_built example_device) = Some \<lparr>rid = 1, Width = 192, Height = 1\<rparr>
   \<and> ShaderTableRecordSize (scene_built example_device) = 64
   \<and> indexBufferSRV (scene_built example_device) = 97568
   \<and> bytes_of (indexBufferSRV (scene_built example_device)) 8 = [32, 125, 1, 0, 0, 0, 0, 0]
   \<and> read_bytes (memory (scene_built example_device) 1) (2 * 64 + 32) 8 = [0, 0, 0, 0, 0, 0, 0, 0]
   \<and> read_bytes (memory (scene_built example_device) 1) (2 * 64 + 32 + 8) 8
        = [32, 125, 1, 0, 0, 0, 0, 0]"
proof -
  have b: "bytes_of (97568 :: UINT64) 8 = [32, 125, 1, 0, 0, 0, 0, 0]"
    by (simp add: bytes_of_8 object_bytes_def drop_bit_eq_div)
  have m: "memory (scene_built example_device) 1 a =
      (if unat (a - 168) < 8 then object_bytes 97568 (unat (a - 168))
       else if unat (a - 128) < 32 then 51
       else if unat (a - 64) < 32 then 34
       else if unat a < 32 then 17 else 0)" for a
  proof -
    have ids: "ShaderIdentifier example_device ''RayGen'' = (\<lambda>i. 17)"
      "ShaderIdentifier example_device ''Miss'' = (\<lambda>i. 34)"
      "ShaderIdentifier example_device ''HitGroup'' = (\<lambda>i. 51)"
      by (simp_all add: example_device_def)
    have "memory (scene_built example_device) 1 a =
        memcpy (memcpy (memcpy (memcpy (zero_memory 1) 0 (\<lambda>i. 17) 32) 64 (\<lambda>i. 34) 32)
                  128 (\<lambda>i. 51) 32) 168 (object_bytes 97568) 8 a"
      by (simp only: scene_built_example(5) started_table_memory ids)
    also have "\<dots> = (if unat (a - 168) < 8 then object_bytes 97568 (unat (a - 168))
       else if unat (a - 128) < 32 then 51
       else if unat (a - 64) < 32 then 34
       else if unat a < 32 then 17 else 0)"
      by (simp add: memcpy_apply zero_memory_def)
    finally show ?thesis .
  qed
  have r1: "read_bytes (memory (scene_built example_device) 1) (2 * 64 + 32) 8
        = [0, 0, 0, 0, 0, 0, 0, 0]"
    by (simp add: read_bytes_8 m [unfolded One_nat_def] unsigned_minus_1_eq_mask mask_eq_exp_minus_1)
  have r2: "read_bytes (memory (scene_built example_device) 1) (2 * 64 + 32 + 8) 8
        = [32, 125, 1, 0, 0, 0, 0, 0]"
    by (simp add: read_bytes_8 m [unfolded One_nat_def] object_bytes_def drop_bit_eq_div)
  show ?thesis
    using b r1 r2 by (simp add: scene_built_example scene_built_frame)
qed



theorem shader_table_record_order_witness:
  "dxrAvailable ((initial_state zero_memory)\<lparr>dxrAvailable := True\<rparr>)
   \<and> \<not> dxrInitialized ((initial_state zero_memory)\<lparr>dxrAvailable := True\<rparr>)
   \<and> 0 < D3D12_RAYTRACING_SHADER_RECORD_BYTE_ALIGNMENT sdk_constants
   \<and> dxrInitialized (scene_built example_device)
   \<and> dxrAvailable (scene_built example_device)
   \<and> CBUploadHeap (scene_built example_device) = Some \<lparr>rid = 0, Width = 256000, Height = 1\<rparr>
   \<and> CBVSRVDescriptorHeap (scene_built example_device) = Some \<lparr>NumDescriptors = 2000\<rparr>
   \<and> TLAS (scene_built example_device) = Some \<lparr>rid = 7, Width = 5120, Height = 1\<rparr>
   \<and> ShaderTable (scene_built example_device) = Some \<lparr>rid = 1, Width = 192, Height = 1\<rparr>
   \<and> (\<exists>t. ShaderTable (CreateShaderTable sdk_constants example_device
                ((initial_state zero_memory)\<lparr>dxrAvailable := True\<rparr>)) = Some t
          \<and> memory (CreateShaderTable sdk_constants example_device
                ((initial_state zero_memory)\<lparr>dxrAvailable := True\<rparr>)) (rid t)
               (2 * ShaderTableRecordSize (CreateShaderTable sdk_constants example_device
                  ((initial_state zero_memory)\<lparr>dxrAvailable := True\<rparr>)) + of_nat 5)
             = ShaderIdentifier example_device ''HitGroup'' 5)
   \<and> (\<exists>s'. Raytrace sdk_constants example_device zero_scene None 1280 720
              (scene_built example_device) = Inr s'
          \<and> filter is_DispatchRays (drop (length (calls (scene_built example_device))) (calls s')) =
              [DispatchRays
                 \<lparr>RayGenerationShaderRecord_StartAddress =
                    GPUVirtualAddress example_device (rid \<lparr>rid = 1, Width = 192, Height = 1\<rparr>)
                      + 0 * ShaderTableRecordSize (scene_built example_device),
                  RayGenerationShaderRecord_SizeInBytes = ShaderTableRecordSize (scene_built example_device),
                  MissShaderTable_StartAddress =
                    GPUVirtualAddress example_device (rid \<lparr>rid = 1, Width = 192, Height = 1\<rparr>)
                      + 1 * ShaderTableRecordSize (scene_built example_device),
                  MissShaderTable_SizeInBytes = ShaderTableRecordSize (scene_built example_device),
                  MissShaderTable_StrideInBytes = ShaderTableRecordSize (scene_built example_device),
                  HitGroupTable_StartAddress =
                    GPUVirtualAddress example_device (rid \<lparr>rid = 1, Width = 192, Height = 1\<rparr>)
                      + 2 * ShaderTableRecordSize (scene_built example_device),
                  HitGroupTable_SizeInBytes = ShaderTableRecordSize (scene_built example_device),
                  HitGroupTable_StrideInBytes = ShaderTableRecordSize (scene_built example_device),
                  Dispatch_Width = 1280, Dispatch_Height = 720, Dispatch_Depth = 1\<rparr>])"
proof -
  let ?sI = "(initial_state zero_memory)\<lparr>dxrAvailable := True\<rparr>"
  let ?sR = "scene_built example_device"
  have h1: "dxrAvailable ?sI" and h2: "\<not> dxrInitialized ?sI"
    by (simp_all add: initial_state_def)
  have h3: "0 < D3D12_RAYTRACING_SHADER_RECORD_BYTE_ALIGNMENT sdk_constants"
    by (simp add: sdk_constants_def)
  note h4 = scene_built_frame(1) and h5 = scene_built_frame(2) and h6 = scene_built_frame(3)
    and h7 = scene_built_frame(4) and h8 = scene_built_example(1) and h9 = scene_built_example(2)
  note t = shader_table_record_order [OF h1 h2 h3 h4 h5 h6 h7 h8 h9,
      where dev = example_device and sceneData = zero_scene and bb = None and w = 1280 and h = 720]
  from t [THEN conjunct1] obtain t where
    t1: "ShaderTable (CreateShaderTable sdk_constants example_device ?sI) = Some t"
    and t2: "\<forall>i < unat (D3D12_SHADER_IDENTIFIER_SIZE_IN_BYTES sdk_constants).
                memory (CreateShaderTable sdk_constants example_device ?sI) (rid t)
                  (0 * ShaderTableRecordSize (CreateShaderTable sdk_constants example_device ?sI) + of_nat i)
                  = ShaderIdentifier example_device ''RayGen'' i
              \<and> memory (CreateShaderTable sdk_constants example_device ?sI) (rid t)
                  (1 * ShaderTableRecordSize (CreateShaderTable sdk_constants example_device ?sI) + of_nat i)
                  = ShaderIdentifier example_device ''Miss'' i
              \<and> memory (CreateShaderTable sdk_constants example_device ?sI) (rid t)
                  (2 * ShaderTableRecordSize (CreateShaderTable sdk_constants example_device ?sI) + of_nat i)
                  = ShaderIdentifier example_device ''HitGroup'' i"
    by blast
  have "(5 :: nat) < unat (D3D12_SHADER_IDENTIFIER_SIZE_IN_BYTES sdk_constants)"
    by (simp add: sdk_constants_def)
  with t2 have t3: "memory (CreateShaderTable sdk_constants example_device ?sI) (rid t)
                  (2 * ShaderTableRecordSize (CreateShaderTable sdk_constants example_device ?sI) + of_nat 5)
                  = ShaderIdentifier example_device ''HitGroup'' 5"
    by blast
  from t1 t3 have p1: "\<exists>t. ShaderTable (CreateShaderTable sdk_constants example_device ?sI) = Some t
          \<and> memory (CreateShaderTable sdk_constants example_device ?sI) (rid t)
               (2 * ShaderTableRecordSize (CreateShaderTable sdk_constants example_device ?sI) + of_nat 5)
             = ShaderIdentifier example_device ''HitGroup'' 5"
    by blast
  note p2 = t [THEN conjunct2]
  show ?thesis
    using h1 h2 h3 h4 h5 h6 h7 h8 h9 p1 p2 by - (intro conjI, assumption+)
qed

theorem hit_group_record_holds_index_SRV_witness:
  "dxrAvailable (started example_device)
   \<and> CBVSRVDescriptorHeap (started example_device) = Some \<lparr>NumDescriptors = 2000\<rparr>
   \<and> ShaderTable (started example_device) = Some \<lparr>rid = 1, Width = 192, Height = 1\<rparr>
   \<and> rid \<lparr>rid = 1, Width = 192, Height = 1\<rparr> < next_rid (started example_device)
   \<and> (\<exists>s1 s2 tlas.
           CreateBLAS sdk_constants example_device example_mesh (started example_device) = Inr s1
         \<and> CreateTLAS sdk_constants zero_instance_bytes example_device s1 = Inr s2
         \<and> TLAS s2 = Some tlas
         \<and> indexBufferSRV s2 = GPUDescriptorHandleForHeapStart example_device
              + ucast (srvDescriptorOffset (started example_device))
                * cbvSrvDescriptorHeapIncrementSize (started example_device)
         \<and> vertexBufferSRV s2 = GPUDescriptorHandleForHeapStart example_device
              + ucast (srvDescriptorOffset (started example_device) + 1)
                * cbvSrvDescriptorHeapIncrementSize (started example_device)
         \<and> memory s2 (rid \<lparr>rid = 1, Width = 192, Height = 1\<rparr>)
                 (2 * ShaderTableRecordSize (started example_device)
                    + ucast (D3D12_SHADER_IDENTIFIER_SIZE_IN_BYTES sdk_constants)
                    + 1 * ucast (sizeof_D3D12_GPU_DESCRIPTOR_HANDLE sdk_constants)
                    + of_nat 3)
                 = object_bytes (indexBufferSRV s2) 3)"
proof -
  let ?s = "started example_device"
  note h1 = started_example(1) and h2 = started_example(7) and h3 = started_example(3)
  have h4: "rid \<lparr>rid = 1, Width = 192, Height = 1\<rparr> < next_rid ?s"
    by (simp add: started_example(11))
  from hit_group_record_holds_index_SRV [OF h1 h2 h3 h4,
      of sdk_constants example_device example_mesh zero_instance_bytes]
  obtain s1 s2 tlas where
    a: "CreateBLAS sdk_constants example_device example_mesh ?s = Inr s1"
    and b: "CreateTLAS sdk_constants zero_instance_bytes example_device s1 = Inr s2"
    and c: "TLAS s2 = Some tlas"
    and d: "indexBufferSRV s2 = GPUDescriptorHandleForHeapStart example_device
              + ucast (srvDescriptorOffset ?s) * cbvSrvDescriptorHeapIncrementSize ?s"
    and e: "vertexBufferSRV s2 = GPUDescriptorHandleForHeapStart example_device
              + ucast (srvDescriptorOffset ?s + 1) * cbvSrvDescriptorHeapIncrementSize ?s"
    and f: "\<forall>i < unat (sizeof_D3D12_GPU_DESCRIPTOR_HANDLE sdk_constants).
               memory s2 (rid \<lparr>rid = 1, Width = 192, Height = 1\<rparr>)
                 (2 * ShaderTableRecordSize ?s
                    + ucast (D3D12_SHADER_IDENTIFIER_SIZE_IN_BYTES sdk_constants)
                    + 1 * ucast (sizeof_D3D12_GPU_DESCRIPTOR_HANDLE sdk_constants)
                    + of_nat i)
                 = object_bytes (indexBufferSRV s2) i"
    by blast
  have "(3 :: nat) < unat (sizeof_D3D12_GPU_DESCRIPTOR_HANDLE sdk_constants)"
    by (simp add: sdk_constants_def)
  with f have g: "memory s2 (rid \<lparr>rid = 1, Width = 192, Height = 1\<rparr>)
                 (2 * ShaderTableRecordSize ?s
                    + ucast (D3D12_SHADER_IDENTIFIER_SIZE_IN_BYTES sdk_constants)
                    + 1 * ucast (sizeof_D3D12_GPU_DESCRIPTOR_HANDLE sdk_constants)
                    + of_nat 3)
                 = object_bytes (indexBufferSRV s2) 3"
    by blast
  show ?thesis using h1 h2 h3 h4 a b c d e g by blast
qed



end
